theory Spec2Isabelle
  imports Complex_Main "HOL-Library.Sublist" "HOL-Library.AList"
begin

section \<open>Routing and budget control of PC-Agent+\<close>

text \<open>
  A shallow embedding of \<^verbatim>\<open>budget_tracker.py\<close>, \<^verbatim>\<open>model_selector.py\<close>,
  \<^verbatim>\<open>complexity_scorer.py\<close> and \<^verbatim>\<open>router_init.py\<close>.

  Conventions of the embedding.
  \<^item> Python's \<^verbatim>\<open>float\<close> is \<^typ>\<open>real\<close>: the model computes the exact value that the
    program rounds, and infinities and NaN are not modelled; \<^verbatim>\<open>float('inf')\<close> has a
    constructor of its own where the source uses it as a default. An \<^verbatim>\<open>int\<close> that a
    caller can pass where a float is expected is kept apart in the scorer, where its
    conversion can raise.
  \<^item> A \<^verbatim>\<open>str\<close> is a \<^typ>\<open>string\<close> of code points below 256.
  \<^item> A \<^verbatim>\<open>dict\<close> whose order or content is iterated is the list of its items in
    insertion order; a key that a \<^verbatim>\<open>.get\<close> may miss is an \<^typ>\<open>'a option\<close> field.
  \<^item> Every \<^verbatim>\<open>datetime.now()\<close> of the source is an argument of the model, one for
    each place where the source reads the clock.
  \<^item> Logging and printing are left out; an exception is a value \<open>Inl e\<close>.
\<close>

subsection \<open>Dates and times\<close>

text \<open>
  A \<^verbatim>\<open>date\<close> is its proleptic Gregorian ordinal (\<^verbatim>\<open>date.toordinal()\<close>: day 1 is Monday,
  1 January of year 1); a \<^verbatim>\<open>datetime\<close> is a date and the microseconds since midnight.
\<close>

type_synonym date = int

record datetime =
  dt_date :: date
  dt_micros :: nat

text \<open>\<^verbatim>\<open>datetime.weekday()\<close>: Monday is 0, Sunday is 6.\<close>

definition weekday :: "datetime \<Rightarrow> int" where
  "weekday now = (dt_date now + 6) mod 7"

text \<open>
  The day of the month of an ordinal, by the usual era computation on the calendar
  whose years start on 1 March (day \<open>n + 305\<close> counts from 1 March of year 0).
\<close>

definition day_of_month :: "date \<Rightarrow> int" where
  "day_of_month n =
     (let doe = (n + 305) mod 146097;
          yoe = (doe - doe div 1460 + doe div 36524 - doe div 146096) div 365;
          doy = doe - (365 * yoe + yoe div 4 - yoe div 100);
          mp = (5 * doy + 2) div 153
      in doy - (153 * mp + 2) div 5 + 1)"

text \<open>\<^verbatim>\<open>now.replace(day=1).date()\<close>\<close>

definition month_start :: "datetime \<Rightarrow> date" where
  "month_start now = dt_date now - (day_of_month (dt_date now) - 1)"

subsection \<open>budget\_tracker.py\<close>

record ExpenseRecord =
  timestamp :: datetime
  model_type :: string
  cost :: real
  task_description :: string
  success :: bool

text \<open>The \<^verbatim>\<open>budget\<close> section of the configuration; \<open>None\<close> is a missing key.\<close>

record budget_config =
  daily_limit :: "real option"
  weekly_limit :: "real option"
  monthly_limit :: "real option"
  warning_threshold :: "real option"
  critical_threshold :: "real option"

record BudgetTracker =
  daily_budget :: real
  weekly_budget :: real
  monthly_budget :: real
  bt_warning_threshold :: real
  bt_critical_threshold :: real
  expenses :: "ExpenseRecord list"
  daily_expenses :: real
  weekly_expenses :: real
  monthly_expenses :: real
  current_day :: date
  current_week :: datetime
  current_month :: date

text \<open>\<^verbatim>\<open>d.get(key, default)\<close> on an optional field.\<close>

definition get_or :: "'a option \<Rightarrow> 'a \<Rightarrow> 'a" where
  "get_or v d = (case v of None \<Rightarrow> d | Some x \<Rightarrow> x)"

text \<open>\<^verbatim>\<open>_get_week_start\<close>: the Monday of the week of \<open>now\<close>, at 00:00:00.\<close>

definition get_week_start :: "datetime \<Rightarrow> datetime" where
  "get_week_start now = \<lparr>dt_date = dt_date now - weekday now, dt_micros = 0\<rparr>"

text \<open>
  \<^verbatim>\<open>__init__\<close> takes the \<^verbatim>\<open>budget\<close> section of the configuration, and reads the clock
  three times: for the day, in \<^verbatim>\<open>_get_week_start\<close>, and for the month.
\<close>

definition BudgetTracker_init ::
  "budget_config \<Rightarrow> datetime \<Rightarrow> datetime \<Rightarrow> datetime \<Rightarrow> BudgetTracker" where
  "BudgetTracker_init bc now_d now_w now_m =
     \<lparr>daily_budget = get_or (daily_limit bc) 10,
      weekly_budget = get_or (weekly_limit bc) 50,
      monthly_budget = get_or (monthly_limit bc) 200,
      bt_warning_threshold = get_or (warning_threshold bc) 2,
      bt_critical_threshold = get_or (critical_threshold bc) (1/2),
      expenses = [],
      daily_expenses = 0,
      weekly_expenses = 0,
      monthly_expenses = 0,
      current_day = dt_date now_d,
      current_week = get_week_start now_w,
      current_month = month_start now_m\<rparr>"

text \<open>
  \<^verbatim>\<open>_update_periods\<close>: \<open>now\<close> is the reading at its first line, \<open>now_w\<close> the one inside
  \<^verbatim>\<open>_get_week_start\<close>. The three tests run one after the other, each on its own period.
\<close>

definition update_day :: "datetime \<Rightarrow> BudgetTracker \<Rightarrow> BudgetTracker" where
  "update_day now t =
     (if dt_date now \<noteq> current_day t
      then t\<lparr>daily_expenses := 0, current_day := dt_date now\<rparr> else t)"

definition update_week :: "datetime \<Rightarrow> BudgetTracker \<Rightarrow> BudgetTracker" where
  "update_week now_w t =
     (if get_week_start now_w \<noteq> current_week t
      then t\<lparr>weekly_expenses := 0, current_week := get_week_start now_w\<rparr> else t)"

definition update_month :: "datetime \<Rightarrow> BudgetTracker \<Rightarrow> BudgetTracker" where
  "update_month now t =
     (if month_start now \<noteq> current_month t
      then t\<lparr>monthly_expenses := 0, current_month := month_start now\<rparr> else t)"

definition update_periods :: "datetime \<Rightarrow> datetime \<Rightarrow> BudgetTracker \<Rightarrow> BudgetTracker" where
  "update_periods now now_w t = update_month now (update_week now_w (update_day now t))"

text \<open>
  \<^verbatim>\<open>record_expense\<close>: the clock is read in \<^verbatim>\<open>_update_periods\<close> (twice) and for the
  timestamp. The defaults of the source are \<^verbatim>\<open>model_type="unknown"\<close> and
  \<^verbatim>\<open>task_description=""\<close>; the record's \<^verbatim>\<open>success\<close> keeps its default \<^verbatim>\<open>True\<close>.
\<close>

record clock =
  now_periods :: datetime
  now_week :: datetime
  now_stamp :: datetime

definition record_expense ::
  "clock \<Rightarrow> real \<Rightarrow> string \<Rightarrow> string \<Rightarrow> BudgetTracker \<Rightarrow> BudgetTracker" where
  "record_expense ck c mt descr t =
     (let t1 = update_periods (now_periods ck) (now_week ck) t;
          expense = \<lparr>timestamp = now_stamp ck, model_type = mt, cost = c,
                     task_description = take 100 descr, success = True\<rparr>
      in t1\<lparr>expenses := expenses t1 @ [expense],
            daily_expenses := daily_expenses t1 + c,
            weekly_expenses := weekly_expenses t1 + c,
            monthly_expenses := monthly_expenses t1 + c\<rparr>)"

record budget_status =
  daily_remaining :: real
  weekly_remaining :: real
  monthly_remaining :: real
  daily_used :: real
  weekly_used :: real
  monthly_used :: real
  is_warning :: bool
  is_critical :: bool
  remaining :: real

text \<open>
  \<^verbatim>\<open>check_budget_status\<close> updates the periods and then reports; the model returns the
  status and the updated tracker.
\<close>

definition status_of :: "BudgetTracker \<Rightarrow> budget_status" where
  "status_of t =
     (let dr = max 0 (daily_budget t - daily_expenses t);
          wr = max 0 (weekly_budget t - weekly_expenses t);
          mr = max 0 (monthly_budget t - monthly_expenses t)
      in \<lparr>daily_remaining = dr, weekly_remaining = wr, monthly_remaining = mr,
          daily_used = daily_expenses t, weekly_used = weekly_expenses t,
          monthly_used = monthly_expenses t,
          is_warning = (dr \<le> bt_warning_threshold t),
          is_critical = (dr \<le> bt_critical_threshold t),
          remaining = min dr (min wr mr)\<rparr>)"

definition check_budget_status ::
  "datetime \<Rightarrow> datetime \<Rightarrow> BudgetTracker \<Rightarrow> budget_status \<times> BudgetTracker" where
  "check_budget_status now now_w t =
     (let t1 = update_periods now now_w t in (status_of t1, t1))"

text \<open>
  \<^verbatim>\<open>get_total_expenses\<close>: \<^verbatim>\<open>sum(expense.cost for expense in self.expenses)\<close>, as the
  exact sum of the ledger's costs; the float that \<^verbatim>\<open>sum()\<close> returns is a rounding of it.
\<close>

definition get_total_expenses :: "BudgetTracker \<Rightarrow> real" where
  "get_total_expenses t = sum_list (map cost (expenses t))"

text \<open>
  \<^verbatim>\<open>get_model_expense_breakdown\<close>: the loop over the ledger, on a dictionary from
  backend tier to accumulated cost.
\<close>

fun breakdown_loop :: "ExpenseRecord list \<Rightarrow> (string \<rightharpoonup> real) \<Rightarrow> (string \<rightharpoonup> real)" where
  "breakdown_loop [] b = b"
| "breakdown_loop (e # es) b =
     (let b1 = (if model_type e \<notin> dom b then b(model_type e \<mapsto> 0) else b)
      in breakdown_loop es (b1(model_type e \<mapsto> the (b1 (model_type e)) + cost e)))"

definition get_model_expense_breakdown :: "BudgetTracker \<Rightarrow> (string \<rightharpoonup> real)" where
  "get_model_expense_breakdown t = breakdown_loop (expenses t) Map.empty"

text \<open>\<^verbatim>\<open>reset_budgets\<close> reads the clock three times, as \<^verbatim>\<open>__init__\<close> does.\<close>

definition reset_budgets ::
  "datetime \<Rightarrow> datetime \<Rightarrow> datetime \<Rightarrow> BudgetTracker \<Rightarrow> BudgetTracker" where
  "reset_budgets now_d now_w now_m t =
     t\<lparr>expenses := [],
       daily_expenses := 0,
       weekly_expenses := 0,
       monthly_expenses := 0,
       current_day := dt_date now_d,
       current_week := get_week_start now_w,
       current_month := month_start now_m\<rparr>"

text \<open>A run of \<^verbatim>\<open>record_expense\<close> calls, each with its clock readings and arguments.\<close>

record expense_call =
  ec_clock :: clock
  ec_cost :: real
  ec_model_type :: string
  ec_description :: string

definition record_call :: "BudgetTracker \<Rightarrow> expense_call \<Rightarrow> BudgetTracker" where
  "record_call t c = record_expense (ec_clock c) (ec_cost c) (ec_model_type c) (ec_description c) t"

definition record_all :: "BudgetTracker \<Rightarrow> expense_call list \<Rightarrow> BudgetTracker" where
  "record_all t cs = foldl record_call t cs"

subsection \<open>Runs of tracker operations\<close>

text \<open>
  A call is within the tracker's current periods when none of the three tests of
  \<^verbatim>\<open>_update_periods\<close> fires on its clock readings.
\<close>

definition in_period :: "BudgetTracker \<Rightarrow> datetime \<Rightarrow> datetime \<Rightarrow> bool" where
  "in_period t now now_w \<longleftrightarrow>
     dt_date now = current_day t \<and> get_week_start now_w = current_week t
     \<and> month_start now = current_month t"

definition call_in_period :: "BudgetTracker \<Rightarrow> expense_call \<Rightarrow> bool" where
  "call_in_period t c = in_period t (now_periods (ec_clock c)) (now_week (ec_clock c))"

text \<open>The public operations that change a tracker, with their clock readings.\<close>

datatype tracker_op =
    RecordExpense expense_call
  | CheckBudgetStatus datetime datetime
  | ResetBudgets datetime datetime datetime

fun apply_op :: "BudgetTracker \<Rightarrow> tracker_op \<Rightarrow> BudgetTracker" where
  "apply_op t (RecordExpense c) = record_call t c"
| "apply_op t (CheckBudgetStatus now now_w) = snd (check_budget_status now now_w t)"
| "apply_op t (ResetBudgets now_d now_w now_m) = reset_budgets now_d now_w now_m t"

definition run_ops :: "BudgetTracker \<Rightarrow> tracker_op list \<Rightarrow> BudgetTracker" where
  "run_ops t ops = foldl apply_op t ops"

fun op_cost_nonneg :: "tracker_op \<Rightarrow> bool" where
  "op_cost_nonneg (RecordExpense c) = (0 \<le> ec_cost c)"
| "op_cost_nonneg (CheckBudgetStatus now now_w) = True"
| "op_cost_nonneg (ResetBudgets now_d now_w now_m) = True"

text \<open>No period counter is negative.\<close>

definition counters_nonneg :: "BudgetTracker \<Rightarrow> bool" where
  "counters_nonneg t \<longleftrightarrow>
     0 \<le> daily_expenses t \<and> 0 \<le> weekly_expenses t \<and> 0 \<le> monthly_expenses t"

subsection \<open>The values of a float\<close>


text \<open>The floats that the literals \<^verbatim>\<open>0.1\<close>, \<^verbatim>\<open>0.2\<close> and \<^verbatim>\<open>0.3\<close> denote.\<close>

definition float_0_1 :: real where
  "float_0_1 = 3602879701896397 / 2 ^ 55"



subsection \<open>Concrete inputs of the scenarios\<close>

text \<open>
  The budget of the scenario of section 8: \<^verbatim>\<open>daily_limit=10\<close>, \<^verbatim>\<open>warning_threshold=2\<close>,
  \<^verbatim>\<open>critical_threshold=0.5\<close>, the other limits left to their defaults.
\<close>

definition scenario_budget :: budget_config where
  "scenario_budget = \<lparr>daily_limit = Some 10, weekly_limit = None, monthly_limit = None,
     warning_threshold = Some 2, critical_threshold = Some (1/2)\<rparr>"

text \<open>
  Clock readings at 12:00 of a day; day 739924 is Wednesday 4 November 2026, day 740012
  is Sunday 31 January 2027.
\<close>

definition noon :: "date \<Rightarrow> datetime" where
  "noon d = \<lparr>dt_date = d, dt_micros = 43200000000\<rparr>"

definition at_noon :: "date \<Rightarrow> clock" where
  "at_noon d = \<lparr>now_periods = noon d, now_week = noon d, now_stamp = noon d\<rparr>"

text \<open>\<^verbatim>\<open>record_expense(c)\<close> with the default tier and description, at noon of day \<open>d\<close>.\<close>

definition plain_call :: "date \<Rightarrow> real \<Rightarrow> expense_call" where
  "plain_call d c =
     \<lparr>ec_clock = at_noon d, ec_cost = c, ec_model_type = ''unknown'', ec_description = ''''\<rparr>"

definition sunday_tracker :: BudgetTracker where
  "sunday_tracker =
     record_all (BudgetTracker_init scenario_budget (noon 740012) (noon 740012) (noon 740012))
       [plain_call 740012 4]"

subsection \<open>The configuration\<close>

text \<open>
  One entry of the \<^verbatim>\<open>models\<close> section; \<open>None\<close> is a missing key. The configuration is the
  dictionary that \<^verbatim>\<open>config_loader.py\<close> loads; its sections are read with
  \<^verbatim>\<open>config.get(section, {})\<close>, so a missing section is an empty one. The items of
  \<^verbatim>\<open>models\<close> and \<^verbatim>\<open>complexity_weights\<close> are kept in insertion order, their keys distinct.
\<close>

record model_config =
  mc_name :: "string option"
  cost_per_1k_tokens :: "real option"
  enabled :: "bool option"
  min_cost_per_call :: "real option"

record threshold_config =
  th_premium :: "real option"
  th_mid :: "real option"
  th_open :: "real option"

record config =
  cfg_models :: "(string \<times> model_config) list"
  cfg_thresholds :: threshold_config
  cfg_budget :: budget_config
  cfg_fallback_order :: "string list"
  cfg_complexity_weights :: "(string \<times> real) list"

text \<open>The empty dictionary \<^verbatim>\<open>{}\<close> as a tier's configuration.\<close>

definition empty_model_config :: model_config where
  "empty_model_config =
     \<lparr>mc_name = None, cost_per_1k_tokens = None, enabled = None, min_cost_per_call = None\<rparr>"

text \<open>\<^verbatim>\<open>self.config.get('models', {}).get(model_type, {})\<close>\<close>

definition get_model_info :: "config \<Rightarrow> string \<Rightarrow> model_config" where
  "get_model_info cfg mt = get_or (map_of (cfg_models cfg) mt) empty_model_config"

text \<open>\<^verbatim>\<open>ConfigLoader._create_default_config\<close>\<close>

definition create_default_config :: config where
  "create_default_config =
     \<lparr>cfg_models =
        [(''premium'', \<lparr>mc_name = Some ''gpt-4o'', cost_per_1k_tokens = Some (15/1000),
                        enabled = Some True, min_cost_per_call = None\<rparr>),
         (''mid'', \<lparr>mc_name = Some ''claude-3.5-sonnet'', cost_per_1k_tokens = Some (8/1000),
                    enabled = Some True, min_cost_per_call = None\<rparr>),
         (''open'', \<lparr>mc_name = Some ''qwen2.5-vl-72b'', cost_per_1k_tokens = Some 0,
                     enabled = Some True, min_cost_per_call = None\<rparr>),
         (''rule'', \<lparr>mc_name = Some ''rule-based'', cost_per_1k_tokens = Some 0,
                     enabled = Some True, min_cost_per_call = None\<rparr>)],
      cfg_thresholds = \<lparr>th_premium = Some (8/10), th_mid = Some (5/10), th_open = Some (2/10)\<rparr>,
      cfg_budget = \<lparr>daily_limit = Some 10, weekly_limit = None, monthly_limit = None,
                     warning_threshold = Some 2, critical_threshold = Some (1/2)\<rparr>,
      cfg_fallback_order = [],
      cfg_complexity_weights = []\<rparr>"

subsection \<open>model\_selector.py\<close>

text \<open>The mock client of \<^verbatim>\<open>_create_mock_client\<close>: the tier's name and its configuration.\<close>

record MockClient =
  client_model_type :: string
  client_config :: model_config

definition create_mock_client :: "string \<Rightarrow> model_config \<Rightarrow> MockClient" where
  "create_mock_client mt mc = \<lparr>client_model_type = mt, client_config = mc\<rparr>"

record ModelSelector =
  ms_config :: config
  models :: "(string \<times> MockClient) list"
  thresholds :: threshold_config
  fallback_order :: "string list"

text \<open>
  \<^verbatim>\<open>_initialize_models\<close>: a client for each tier whose \<^verbatim>\<open>enabled\<close> is set, in the order of
  the configuration; then \<^verbatim>\<open>rule\<close> is added when the loop did not create it.
\<close>

fun initialize_loop ::
  "(string \<times> model_config) list \<Rightarrow> (string \<times> MockClient) list \<Rightarrow> (string \<times> MockClient) list" where
  "initialize_loop [] ms = ms"
| "initialize_loop ((mt, mc) # rest) ms =
     initialize_loop rest
       (if get_or (enabled mc) False then AList.update mt (create_mock_client mt mc) ms else ms)"

definition initialize_models :: "config \<Rightarrow> (string \<times> MockClient) list" where
  "initialize_models cfg =
     (let ms = initialize_loop (cfg_models cfg) []
      in if map_of ms ''rule'' = None
         then AList.update ''rule'' (create_mock_client ''rule'' empty_model_config) ms
         else ms)"

definition ModelSelector_init :: "config \<Rightarrow> ModelSelector" where
  "ModelSelector_init cfg =
     \<lparr>ms_config = cfg, models = initialize_models cfg,
      thresholds = cfg_thresholds cfg, fallback_order = cfg_fallback_order cfg\<rparr>"

text \<open>
  The remaining budget that \<^verbatim>\<open>select_model\<close> reads from the status:
  \<^verbatim>\<open>budget_status.get('remaining', float('inf'))\<close>.
\<close>

datatype amount = Finite real | Infinity

fun amount_ge :: "amount \<Rightarrow> real \<Rightarrow> bool" where
  "amount_ge (Finite r) m = (m \<le> r)"
| "amount_ge Infinity m = True"

text \<open>\<^verbatim>\<open>_can_afford_model\<close>: the floor defaults to 0.001.\<close>

definition min_cost :: "ModelSelector \<Rightarrow> string \<Rightarrow> real" where
  "min_cost s mt = get_or (min_cost_per_call (get_model_info (ms_config s) mt)) (1/1000)"

definition can_afford_model :: "ModelSelector \<Rightarrow> string \<Rightarrow> amount \<Rightarrow> bool" where
  "can_afford_model s mt budget_remaining = amount_ge budget_remaining (min_cost s mt)"

text \<open>\<^verbatim>\<open>get_model_cost\<close>: the tier's \<^verbatim>\<open>cost_per_1k_tokens\<close>, 0 when it is not configured.\<close>

definition get_model_cost :: "ModelSelector \<Rightarrow> string \<Rightarrow> real" where
  "get_model_cost s mt = get_or (cost_per_1k_tokens (get_model_info (ms_config s) mt)) 0"

text \<open>
  The status dictionary as \<^verbatim>\<open>select_model\<close> reads it: the two keys it looks up, each
  possibly missing.
\<close>

record status_dict =
  sd_is_critical :: "bool option"
  sd_remaining :: "real option"

datatype py_error = KeyError string | AttributeError | OverflowError

text \<open>\<^verbatim>\<open>return tier, self.models[tier]\<close>: the subscript raises \<^verbatim>\<open>KeyError\<close> on a missing tier.\<close>

definition return_model :: "ModelSelector \<Rightarrow> string \<Rightarrow> py_error + (string \<times> MockClient)" where
  "return_model s tier =
     (case map_of (models s) tier of
        None \<Rightarrow> Inl (KeyError tier)
      | Some client \<Rightarrow> Inr (tier, client))"

text \<open>
  \<^verbatim>\<open>select_model\<close>, one function for each \<^verbatim>\<open>if\<close> statement of the source that the
  control falls through: the test on the open threshold, the test on the mid threshold
  before it, and the test on the premium threshold first.
\<close>

definition select_open ::
  "ModelSelector \<Rightarrow> real \<Rightarrow> amount \<Rightarrow> py_error + (string \<times> MockClient)" where
  "select_open s complexity budget_remaining =
     (if complexity > get_or (th_open (thresholds s)) (2/10)
      then (if can_afford_model s ''open'' budget_remaining
            then return_model s ''open''
            else return_model s ''rule'')
      else return_model s ''rule'')"

definition select_mid ::
  "ModelSelector \<Rightarrow> real \<Rightarrow> bool \<Rightarrow> amount \<Rightarrow> py_error + (string \<times> MockClient)" where
  "select_mid s complexity budget_critical budget_remaining =
     (if complexity > get_or (th_mid (thresholds s)) (5/10)
      then (if can_afford_model s ''mid'' budget_remaining
            then return_model s ''mid''
            else if \<not> budget_critical
            then (if can_afford_model s ''premium'' budget_remaining
                  then return_model s ''premium''
                  else select_open s complexity budget_remaining)
            else select_open s complexity budget_remaining)
      else select_open s complexity budget_remaining)"

definition select_model ::
  "ModelSelector \<Rightarrow> real \<Rightarrow> status_dict \<Rightarrow> py_error + (string \<times> MockClient)" where
  "select_model s complexity bs =
     (let budget_critical = get_or (sd_is_critical bs) False;
          budget_remaining = (case sd_remaining bs of None \<Rightarrow> Infinity | Some r \<Rightarrow> Finite r)
      in if complexity > get_or (th_premium (thresholds s)) (8/10) \<and> \<not> budget_critical
         then (if can_afford_model s ''premium'' budget_remaining
               then return_model s ''premium''
               else select_mid s complexity budget_critical budget_remaining)
         else select_mid s complexity budget_critical budget_remaining)"

text \<open>The status that \<^verbatim>\<open>check_budget_status\<close> returns, as \<^verbatim>\<open>select_model\<close> reads it.\<close>

definition status_dict_of :: "budget_status \<Rightarrow> status_dict" where
  "status_dict_of st = \<lparr>sd_is_critical = Some (is_critical st), sd_remaining = Some (remaining st)\<rparr>"

text \<open>
  Configurations of the scenarios: the default one with the premium tier disabled, and the
  default one with the floors of the mid and open tiers set.
\<close>

definition premium_disabled_config :: config where
  "premium_disabled_config =
     create_default_config\<lparr>cfg_models :=
        (''premium'', \<lparr>mc_name = Some ''gpt-4o'', cost_per_1k_tokens = Some (15/1000),
                       enabled = Some False, min_cost_per_call = None\<rparr>)
        # tl (cfg_models create_default_config)\<rparr>"

definition floors_config :: "real \<Rightarrow> real \<Rightarrow> config" where
  "floors_config mid_floor open_floor =
     create_default_config\<lparr>cfg_models :=
        [(''premium'', \<lparr>mc_name = Some ''gpt-4o'', cost_per_1k_tokens = Some (15/1000),
                        enabled = Some True, min_cost_per_call = Some (1/1000)\<rparr>),
         (''mid'', \<lparr>mc_name = Some ''claude-3.5-sonnet'', cost_per_1k_tokens = Some (8/1000),
                    enabled = Some True, min_cost_per_call = Some mid_floor\<rparr>),
         (''open'', \<lparr>mc_name = Some ''qwen2.5-vl-72b'', cost_per_1k_tokens = Some 0,
                     enabled = Some True, min_cost_per_call = Some open_floor\<rparr>),
         (''rule'', \<lparr>mc_name = Some ''rule-based'', cost_per_1k_tokens = Some 0,
                     enabled = Some True, min_cost_per_call = None\<rparr>)]\<rparr>"

text \<open>The tier that a call returned, or its exception.\<close>

definition tier_of :: "py_error + (string \<times> MockClient) \<Rightarrow> py_error + string" where
  "tier_of r = (case r of Inl e \<Rightarrow> Inl e | Inr (tier, client) \<Rightarrow> Inr tier)"

subsection \<open>Strings and patterns\<close>

text \<open>
  \<^verbatim>\<open>str.lower()\<close> on code points below 256: the letters A to Z, and the capital letters
  of Latin-1 from 192 to 222, the multiplication sign 215 apart.
\<close>

definition lower_char :: "char \<Rightarrow> char" where
  "lower_char c =
     (let n = (of_char c :: nat)
      in if (65 \<le> n \<and> n \<le> 90) \<or> (192 \<le> n \<and> n \<le> 222 \<and> n \<noteq> 215)
         then char_of (n + 32) else c)"

definition lower :: "string \<Rightarrow> string" where
  "lower s = map lower_char s"

text \<open>\<^verbatim>\<open>sub in s\<close>: the substring test.\<close>

fun py_in :: "string \<Rightarrow> string \<Rightarrow> bool" where
  "py_in sub [] = (sub = [])"
| "py_in sub (c # cs) = (prefix sub (c # cs) \<or> py_in sub cs)"

text \<open>\<^verbatim>\<open>any(keyword in description for keyword in keywords)\<close>\<close>

definition any_in :: "string list \<Rightarrow> string \<Rightarrow> bool" where
  "any_in keywords description = list_ex (\<lambda>keyword. py_in keyword description) keywords"

text \<open>\<^verbatim>\<open>sum(1 for word in words if word in description)\<close>\<close>

definition count_in :: "string list \<Rightarrow> string \<Rightarrow> nat" where
  "count_in words description = length (filter (\<lambda>word. py_in word description) words)"

text \<open>
  \<^verbatim>\<open>len(description.split())\<close>: the number of maximal runs of characters that are not
  white space. Below 256 the white space of \<^verbatim>\<open>str.split()\<close> is tab to carriage return, the
  four separators from 28 to 31, the blank, the next-line control 133 and the no-break
  space 160.
\<close>

definition is_space :: "char \<Rightarrow> bool" where
  "is_space c =
     (let n = (of_char c :: nat)
      in (9 \<le> n \<and> n \<le> 13) \<or> (28 \<le> n \<and> n \<le> 32) \<or> n = 133 \<or> n = 160)"

fun split_count :: "bool \<Rightarrow> string \<Rightarrow> nat" where
  "split_count in_word [] = 0"
| "split_count in_word (c # cs) =
     (if is_space c then split_count False cs
      else (if in_word then 0 else 1) + split_count True cs)"

text \<open>
  \<^verbatim>\<open>len(re.split(r'[.!?]+', description))\<close>: one more than the number of maximal runs of
  the three delimiters.
\<close>

definition is_delimiter :: "char \<Rightarrow> bool" where
  "is_delimiter c = (c = CHR ''.'' \<or> c = CHR ''!'' \<or> c = CHR ''?'')"

fun delimiter_runs :: "bool \<Rightarrow> string \<Rightarrow> nat" where
  "delimiter_runs in_run [] = 0"
| "delimiter_runs in_run (c # cs) =
     (if is_delimiter c then (if in_run then 0 else 1) + delimiter_runs True cs
      else delimiter_runs False cs)"

text \<open>
  The patterns of \<^verbatim>\<open>_has_inter_app_dependency\<close> are literals separated by \<^verbatim>\<open>.*\<close>, with a
  \<^verbatim>\<open>.*\<close> at the end: \<^verbatim>\<open>l1.*l2.*\<close> is the list \<open>[l1, l2]\<close>. The dot does not match a line
  feed. \<open>chain_here ls s\<close> matches \<^verbatim>\<open>.*l.*l'...\<close> at the start of \<open>s\<close>; \<open>re_search\<close> tries
  every start, as \<^verbatim>\<open>re.search\<close> does.
\<close>

function chain_here :: "string list \<Rightarrow> string \<Rightarrow> bool" where
  "chain_here [] s = True"
| "chain_here (l # ls) [] = (l = [] \<and> chain_here ls [])"
| "chain_here (l # ls) (c # cs) =
     ((prefix l (c # cs) \<and> chain_here ls (drop (length l) (c # cs)))
      \<or> (c \<noteq> CHR 0x0A \<and> chain_here (l # ls) cs))"
  by pat_completeness auto
termination
  by (relation "measure (\<lambda>(ls, s). length ls + length s)") auto

fun re_search :: "string list \<Rightarrow> string \<Rightarrow> bool" where
  "re_search [] s = True"
| "re_search (l # ls) [] = (l = [] \<and> chain_here ls [])"
| "re_search (l # ls) (c # cs) =
     ((prefix l (c # cs) \<and> chain_here ls (drop (length l) (c # cs)))
      \<or> re_search (l # ls) cs)"

subsection \<open>complexity\_scorer.py\<close>

text \<open>
  A value of a feature or of a context entry: a \<^verbatim>\<open>bool\<close>, an \<^verbatim>\<open>int\<close> (unbounded), a
  finite \<^verbatim>\<open>float\<close>, or anything else (\<^verbatim>\<open>None\<close>, a string, a list). The optional
  \<^verbatim>\<open>context\<close> argument is \<^verbatim>\<open>None\<close>, a dictionary (its items), or another object, of which
  only the truth value matters before \<^verbatim>\<open>context.get\<close> fails on it.
\<close>

datatype pyval = PyBool bool | PyInt int | PyFloat real | PyOther

text \<open>
  An \<^verbatim>\<open>int\<close> that meets a \<^verbatim>\<open>float\<close> in arithmetic is converted to a \<^verbatim>\<open>float\<close>, and the
  conversion raises \<^verbatim>\<open>OverflowError\<close> when the integer rounds beyond the largest
  \<^verbatim>\<open>float\<close>, that is from \<open>2^1024 - 2^970\<close> on. The true division of two integers raises
  it when the quotient does. (The rounding of an integer or quotient within the range is
  not modelled.)
\<close>

definition float_limit :: real where
  "float_limit = 2 ^ 1024 - 2 ^ 970"

definition int_to_float :: "int \<Rightarrow> py_error + real" where
  "int_to_float n =
     (if \<bar>real_of_int n\<bar> < float_limit then Inr (real_of_int n) else Inl OverflowError)"

definition int_truediv :: "int \<Rightarrow> int \<Rightarrow> py_error + real" where
  "int_truediv n d =
     (if \<bar>real_of_int n / real_of_int d\<bar> < float_limit
      then Inr (real_of_int n / real_of_int d) else Inl OverflowError)"

text \<open>A number as the arithmetic of the scorer holds it.\<close>

datatype pynum = NumInt int | NumFloat real

fun to_float :: "pynum \<Rightarrow> py_error + real" where
  "to_float (NumInt n) = int_to_float n"
| "to_float (NumFloat x) = Inr x"

datatype py_context = CtxNone | CtxDict "(string \<times> pyval) list" | CtxOther bool

type_synonym features = "(string \<times> pyval) list"

record ScoringRecord =
  sr_description :: string
  sr_features :: features
  sr_score :: real
  sr_context :: py_context

record ComplexityScorer =
  cs_config :: config
  weights :: "(string \<times> real) list"
  history :: "ScoringRecord list"

definition ComplexityScorer_init :: "config \<Rightarrow> ComplexityScorer" where
  "ComplexityScorer_init cfg =
     \<lparr>cs_config = cfg, weights = cfg_complexity_weights cfg, history = []\<rparr>"

definition count_apps :: "string \<Rightarrow> nat" where
  "count_apps description =
     count_in [''chrome'', ''word'', ''excel'', ''notepad'', ''calculator'',
               ''outlook'', ''explorer'', ''paint'', ''powerpoint''] description"

definition has_inter_app_dependency :: "string \<Rightarrow> bool" where
  "has_inter_app_dependency description =
     list_ex (\<lambda>pattern. re_search pattern description)
       [[''from'', ''to''],
        [''copy'', ''from'', ''to''],
        [''import'', ''into''],
        [''export'', ''from'', ''to''],
        [''search'', ''and'', ''create'']]"

definition requires_text_processing :: "string \<Rightarrow> bool" where
  "requires_text_processing description =
     any_in [''edit'', ''format'', ''bold'', ''italic'', ''underline'',
             ''align'', ''paragraph'', ''font'', ''style''] description"

definition requires_navigation :: "string \<Rightarrow> bool" where
  "requires_navigation description =
     any_in [''open'', ''close'', ''navigate'', ''go to'', ''click'',
             ''select'', ''find'', ''search'', ''browse''] description"

definition requires_data_manipulation :: "string \<Rightarrow> bool" where
  "requires_data_manipulation description =
     any_in [''calculate'', ''sum'', ''average'', ''sort'', ''filter'',
             ''analyze'', ''graph'', ''chart'', ''formula'', ''function''] description"

definition estimate_step_count :: "string \<Rightarrow> nat" where
  "estimate_step_count description =
     (let steps = 1 + delimiter_runs False description;
          verb_count = count_in [''click'', ''type'', ''open'', ''close'', ''save'',
                                 ''create'', ''delete'', ''move'', ''copy'', ''paste''] description
      in max steps verb_count)"

definition has_conditional_logic :: "string \<Rightarrow> bool" where
  "has_conditional_logic description =
     any_in [''if'', ''then'', ''else'', ''when'', ''unless'',
             ''depending on'', ''based on'', ''condition''] description"

text \<open>\<^verbatim>\<open>if context:\<close> holds of a dictionary that is not empty and of a true other object.\<close>

fun truthy :: "py_context \<Rightarrow> bool" where
  "truthy CtxNone = False"
| "truthy (CtxDict items) = (items \<noteq> [])"
| "truthy (CtxOther b) = b"

text \<open>\<^verbatim>\<open>context.get(key, 0.5)\<close>; an object that is not a dictionary has no \<^verbatim>\<open>get\<close>.\<close>

fun context_get :: "py_context \<Rightarrow> string \<Rightarrow> py_error + pyval" where
  "context_get (CtxDict items) key = Inr (get_or (map_of items key) (PyFloat (1/2)))"
| "context_get CtxNone key = Inl AttributeError"
| "context_get (CtxOther b) key = Inl AttributeError"

definition description_features :: "string \<Rightarrow> features" where
  "description_features description =
     (let description_lower = lower description
      in [(''word_count'', PyInt (int (split_count False description))),
          (''app_count'', PyInt (int (count_apps description_lower))),
          (''has_inter_app_dependency'', PyBool (has_inter_app_dependency description_lower)),
          (''requires_text_processing'', PyBool (requires_text_processing description_lower)),
          (''requires_navigation'', PyBool (requires_navigation description_lower)),
          (''requires_data_manipulation'', PyBool (requires_data_manipulation description_lower)),
          (''step_count_estimate'', PyInt (int (estimate_step_count description_lower))),
          (''has_conditional_logic'', PyBool (has_conditional_logic description_lower))])"

text \<open>
  \<^verbatim>\<open>_extract_features\<close>: the features of the description, and under \<^verbatim>\<open>if context:\<close> the
  three context features, each read with \<^verbatim>\<open>context.get\<close>.
\<close>

definition extract_features :: "string \<Rightarrow> py_context \<Rightarrow> py_error + features" where
  "extract_features description context =
     (let features = description_features description
      in if truthy context
         then (case context_get context ''historical_success_rate'' of
                 Inl e \<Rightarrow> Inl e
               | Inr h \<Rightarrow>
                  (case context_get context ''similar_tasks_complexity'' of
                     Inl e \<Rightarrow> Inl e
                   | Inr c \<Rightarrow>
                      (case context_get context ''user_skill_level'' of
                         Inl e \<Rightarrow> Inl e
                       | Inr u \<Rightarrow>
                           Inr (AList.update ''user_skill_level'' u
                                 (AList.update ''similar_tasks_complexity'' c
                                   (AList.update ''historical_success_rate'' h features))))))
         else Inr features)"

text \<open>
  \<^verbatim>\<open>_normalize_feature\<close>. On an \<^verbatim>\<open>int\<close> the divisions are true divisions of integers,
  \<^verbatim>\<open>1.0 - value\<close> converts the integer, and \<^verbatim>\<open>min(value, 1.0)\<close> compares exactly and
  returns the integer itself unless it is above 1.
\<close>

definition capped :: "py_error + real \<Rightarrow> py_error + pynum" where
  "capped r = (case r of Inl e \<Rightarrow> Inl e | Inr x \<Rightarrow> Inr (NumFloat (min x 1)))"

fun normalize_feature :: "string \<Rightarrow> pyval \<Rightarrow> py_error + pynum" where
  "normalize_feature feature_name (PyBool b) = Inr (NumFloat (if b then 1 else 0))"
| "normalize_feature feature_name (PyInt n) =
     (if feature_name = ''word_count'' then capped (int_truediv n 50)
      else if feature_name = ''app_count'' then capped (int_truediv n 5)
      else if feature_name = ''step_count_estimate'' then capped (int_truediv n 20)
      else if feature_name = ''historical_success_rate''
      then (case int_to_float n of Inl e \<Rightarrow> Inl e | Inr x \<Rightarrow> Inr (NumFloat (1 - x)))
      else Inr (if 1 < n then NumFloat 1 else NumInt n))"
| "normalize_feature feature_name (PyFloat v) =
     (if feature_name = ''word_count'' then Inr (NumFloat (min (v / 50) 1))
      else if feature_name = ''app_count'' then Inr (NumFloat (min (v / 5) 1))
      else if feature_name = ''step_count_estimate'' then Inr (NumFloat (min (v / 20) 1))
      else if feature_name = ''historical_success_rate'' then Inr (NumFloat (1 - v))
      else Inr (NumFloat (min v 1)))"
| "normalize_feature feature_name PyOther = Inr (NumFloat (1/2))"

definition default_weights :: "(string \<times> real) list" where
  "default_weights =
     [(''word_count'', 1/10),
      (''app_count'', 2/10),
      (''has_inter_app_dependency'', 3/10),
      (''requires_text_processing'', 15/100),
      (''requires_navigation'', 1/10),
      (''requires_data_manipulation'', 2/10),
      (''step_count_estimate'', 15/100),
      (''has_conditional_logic'', 25/100),
      (''historical_success_rate'', 2/10)]"

text \<open>\<^verbatim>\<open>{**default_weights, **self.weights}\<close>\<close>

definition merged_weights :: "ComplexityScorer \<Rightarrow> (string \<times> real) list" where
  "merged_weights s = fold (\<lambda>(k, w) ws. AList.update k w ws) (weights s) default_weights"

text \<open>
  The loop of \<^verbatim>\<open>_calculate_weighted_score\<close> on \<open>(score, total_weight)\<close>, both floats;
  the weights are floats, as the defaults are, so \<^verbatim>\<open>normalized_value * weight\<close> converts a
  normalized value that is an \<^verbatim>\<open>int\<close>.
\<close>

fun weighted_loop ::
  "(string \<times> real) list \<Rightarrow> features \<Rightarrow> real \<times> real \<Rightarrow> py_error + (real \<times> real)" where
  "weighted_loop [] fs acc = Inr acc"
| "weighted_loop ((feature_name, weight) # rest) fs (score, total_weight) =
     (case map_of fs feature_name of
        None \<Rightarrow> weighted_loop rest fs (score, total_weight)
      | Some feature_value \<Rightarrow>
          (case normalize_feature feature_name feature_value of
             Inl e \<Rightarrow> Inl e
           | Inr normalized_value \<Rightarrow>
               (case to_float normalized_value of
                  Inl e \<Rightarrow> Inl e
                | Inr x \<Rightarrow>
                    weighted_loop rest fs (score + x * weight, total_weight + weight))))"

definition calculate_weighted_score :: "ComplexityScorer \<Rightarrow> features \<Rightarrow> py_error + real" where
  "calculate_weighted_score s fs =
     (case weighted_loop (merged_weights s) fs (0, 0) of
        Inl e \<Rightarrow> Inl e
      | Inr (score, total_weight) \<Rightarrow>
          Inr (if total_weight > 0 then score / total_weight else score))"

text \<open>\<^verbatim>\<open>_sigmoid_normalize\<close>\<close>

definition sigmoid_normalize :: "real \<Rightarrow> real" where
  "sigmoid_normalize x = 1 / (1 + exp (- 10 * (x - 1/2)))"

text \<open>
  \<^verbatim>\<open>calculate_complexity\<close> returns the score and appends a record to the history; an
  exception of \<^verbatim>\<open>_extract_features\<close> or of \<^verbatim>\<open>_calculate_weighted_score\<close> comes before
  the append and leaves the scorer as it was.
\<close>

definition calculate_complexity ::
  "ComplexityScorer \<Rightarrow> string \<Rightarrow> py_context \<Rightarrow> py_error + (real \<times> ComplexityScorer)" where
  "calculate_complexity s task_descr context =
     (case extract_features task_descr context of
        Inl e \<Rightarrow> Inl e
      | Inr fs \<Rightarrow>
          (case calculate_weighted_score s fs of
             Inl e \<Rightarrow> Inl e
           | Inr score \<Rightarrow>
               (let normalized_score = max 0 (min 1 (sigmoid_normalize score))
                in Inr (normalized_score,
                        s\<lparr>history := history s @
                            [\<lparr>sr_description = task_descr, sr_features = fs,
                              sr_score = normalized_score, sr_context = context\<rparr>]\<rparr>))))"

text \<open>\<^verbatim>\<open>update_model_performance\<close>: \<^verbatim>\<open>self.history[-1000:]\<close> keeps the last 1000 records.\<close>

definition update_model_performance ::
  "ComplexityScorer \<Rightarrow> string \<Rightarrow> string \<Rightarrow> bool \<Rightarrow> ComplexityScorer" where
  "update_model_performance s task_descr mt ok =
     (if length (history s) > 1000
      then s\<lparr>history := drop (length (history s) - 1000) (history s)\<rparr>
      else s)"

text \<open>
  A run of \<^verbatim>\<open>calculate_complexity\<close> calls; a call that raises leaves the scorer unchanged.
\<close>

definition score_call :: "ComplexityScorer \<Rightarrow> string \<times> py_context \<Rightarrow> ComplexityScorer" where
  "score_call s call =
     (case calculate_complexity s (fst call) (snd call) of Inl e \<Rightarrow> s | Inr (score, s') \<Rightarrow> s')"

definition score_all :: "ComplexityScorer \<Rightarrow> (string \<times> py_context) list \<Rightarrow> ComplexityScorer" where
  "score_all s calls = foldl score_call s calls"

text \<open>The three context features, and a context that gives each of them the value 0.5.\<close>

definition context_features :: "string list" where
  "context_features = [''historical_success_rate'', ''similar_tasks_complexity'', ''user_skill_level'']"

definition neutral_context :: py_context where
  "neutral_context = CtxDict (map (\<lambda>k. (k, PyFloat (1/2))) context_features)"

text \<open>
  The values that convert to a float without an exception: all of them but an integer
  beyond the range of a float.
\<close>

fun float_safe :: "pyval \<Rightarrow> bool" where
  "float_safe (PyInt n) = (\<bar>real_of_int n\<bar> < float_limit)"
| "float_safe v = True"

definition context_safe :: "(string \<times> pyval) list \<Rightarrow> bool" where
  "context_safe items = list_all (\<lambda>item. float_safe (snd item)) items"

text \<open>The scorer of the default configuration.\<close>

definition default_scorer :: ComplexityScorer where
  "default_scorer = ComplexityScorer_init create_default_config"

subsection \<open>router\_init.py\<close>

record RoutingDecision =
  rd_subtask :: string
  rd_complexity :: real
  rd_model_type :: string
  rd_budget_remaining :: real

record RouterAgent =
  ra_config :: config
  complexity_scorer :: ComplexityScorer
  budget_tracker :: BudgetTracker
  model_selector :: ModelSelector
  routing_history :: "RoutingDecision list"

definition RouterAgent_init :: "config \<Rightarrow> datetime \<Rightarrow> datetime \<Rightarrow> datetime \<Rightarrow> RouterAgent" where
  "RouterAgent_init cfg now_d now_w now_m =
     \<lparr>ra_config = cfg,
      complexity_scorer = ComplexityScorer_init cfg,
      budget_tracker = BudgetTracker_init (cfg_budget cfg) now_d now_w now_m,
      model_selector = ModelSelector_init cfg,
      routing_history = []\<rparr>"

text \<open>
  \<^verbatim>\<open>RouterAgent.select_model\<close>: the scorer, then the tracker's status, then the selector,
  then the entry in the routing history. The result comes with the router as the call
  leaves it: an exception keeps what the calls before it changed.
\<close>

definition router_select_model ::
  "RouterAgent \<Rightarrow> datetime \<Rightarrow> datetime \<Rightarrow> string \<Rightarrow> py_context
     \<Rightarrow> (py_error + (string \<times> MockClient \<times> real)) \<times> RouterAgent" where
  "router_select_model r now now_w subtask context =
     (case calculate_complexity (complexity_scorer r) subtask context of
        Inl e \<Rightarrow> (Inl e, r)
      | Inr (complexity, scorer) \<Rightarrow>
          (case check_budget_status now now_w (budget_tracker r) of
             (status, tracker) \<Rightarrow>
               (let r1 = r\<lparr>complexity_scorer := scorer, budget_tracker := tracker\<rparr>
                in case select_model (model_selector r) complexity (status_dict_of status) of
                     Inl e \<Rightarrow> (Inl e, r1)
                   | Inr (tier, client) \<Rightarrow>
                       (Inr (tier, client, complexity),
                        r1\<lparr>routing_history := routing_history r1 @
                             [\<lparr>rd_subtask = take 50 subtask, rd_complexity = complexity,
                               rd_model_type = tier,
                               rd_budget_remaining = remaining status\<rparr>]\<rparr>))))"

text \<open>
  \<^verbatim>\<open>update_routing_performance\<close>: the scorer's hook, then, for a tier other than
  \<^verbatim>\<open>rule\<close>, \<^verbatim>\<open>self.budget_tracker.record_expense(cost)\<close> with the cost of the tier and the
  defaults of the two other parameters.
\<close>

definition update_routing_performance ::
  "RouterAgent \<Rightarrow> clock \<Rightarrow> string \<Rightarrow> string \<Rightarrow> bool \<Rightarrow> RouterAgent" where
  "update_routing_performance r ck subtask tier ok =
     (let scorer = update_model_performance (complexity_scorer r) subtask tier ok;
          tracker = (if tier \<noteq> ''rule''
                     then record_expense ck (get_model_cost (model_selector r) tier)
                            ''unknown'' '''' (budget_tracker r)
                     else budget_tracker r)
      in r\<lparr>complexity_scorer := scorer, budget_tracker := tracker\<rparr>)"

text \<open>A run of \<^verbatim>\<open>update_routing_performance\<close> calls.\<close>

record routing_update =
  ru_clock :: clock
  ru_subtask :: string
  ru_tier :: string
  ru_success :: bool

definition update_call :: "RouterAgent \<Rightarrow> routing_update \<Rightarrow> RouterAgent" where
  "update_call r u = update_routing_performance r (ru_clock u) (ru_subtask u) (ru_tier u) (ru_success u)"

definition update_all :: "RouterAgent \<Rightarrow> routing_update list \<Rightarrow> RouterAgent" where
  "update_all r us = foldl update_call r us"

text \<open>The expense that a router's update records for a tier other than \<^verbatim>\<open>rule\<close>.\<close>

definition router_expense :: "RouterAgent \<Rightarrow> routing_update \<Rightarrow> ExpenseRecord" where
  "router_expense r u =
     \<lparr>timestamp = now_stamp (ru_clock u), model_type = ''unknown'',
      cost = get_model_cost (model_selector r) (ru_tier u),
      task_description = '''', success = True\<rparr>"

section \<open>Properties\<close>

subsection \<open>The budget tracker\<close>

lemma expenses_update_periods [simp]: "expenses (update_periods now now_w t) = expenses t"
  by (simp add: update_periods_def update_day_def update_week_def update_month_def)

lemma budgets_update_periods [simp]:
  "daily_budget (update_periods now now_w t) = daily_budget t"
  "weekly_budget (update_periods now now_w t) = weekly_budget t"
  "monthly_budget (update_periods now now_w t) = monthly_budget t"
  "bt_warning_threshold (update_periods now now_w t) = bt_warning_threshold t"
  "bt_critical_threshold (update_periods now now_w t) = bt_critical_threshold t"
  by (simp_all add: update_periods_def update_day_def update_week_def update_month_def)

lemma counters_update_periods:
  "daily_expenses (update_periods now now_w t) = (if dt_date now \<noteq> current_day t then 0 else daily_expenses t)"
  "weekly_expenses (update_periods now now_w t) = (if get_week_start now_w \<noteq> current_week t then 0 else weekly_expenses t)"
  "monthly_expenses (update_periods now now_w t) = (if month_start now \<noteq> current_month t then 0 else monthly_expenses t)"
  by (simp_all add: update_periods_def update_day_def update_week_def update_month_def)

lemma anchors_update_periods [simp]:
  "current_day (update_periods now now_w t) = dt_date now"
  "current_week (update_periods now now_w t) = get_week_start now_w"
  "current_month (update_periods now now_w t) = month_start now"
  by (simp_all add: update_periods_def update_day_def update_week_def update_month_def)

lemma update_periods_in_period: "in_period t now now_w \<Longrightarrow> update_periods now now_w t = t"
  by (simp add: in_period_def update_periods_def update_day_def update_week_def update_month_def)












lemma daily_record_call_same_day:
  "dt_date (now_periods (ec_clock c)) = current_day t \<Longrightarrow>
   daily_expenses (record_call t c) = daily_expenses t + ec_cost c"
  by (simp add: record_call_def record_expense_def Let_def counters_update_periods)

lemma current_day_record_call: "current_day (record_call t c) = dt_date (now_periods (ec_clock c))"
  by (simp add: record_call_def record_expense_def Let_def)

lemma daily_record_all_same_day:
  "\<forall>c\<in>set cs. dt_date (now_periods (ec_clock c)) = current_day t \<Longrightarrow>
   daily_expenses (record_all t cs) = daily_expenses t + sum_list (map ec_cost cs)
   \<and> current_day (record_all t cs) = current_day t"
  unfolding record_all_def
proof (induction cs arbitrary: t)
  case Nil
  then show ?case by simp
next
  case (Cons c cs)
  have day: "current_day (record_call t c) = current_day t"
    using Cons.prems by (simp add: current_day_record_call)
  have "\<forall>c'\<in>set cs. dt_date (now_periods (ec_clock c')) = current_day (record_call t c)"
    using Cons.prems day by simp
  from Cons.IH [OF this] show ?case
    using Cons.prems day by (simp add: daily_record_call_same_day)
qed

lemma config_record_call [simp]:
  "daily_budget (record_call t c) = daily_budget t"
  "weekly_budget (record_call t c) = weekly_budget t"
  "monthly_budget (record_call t c) = monthly_budget t"
  "bt_warning_threshold (record_call t c) = bt_warning_threshold t"
  "bt_critical_threshold (record_call t c) = bt_critical_threshold t"
  by (simp_all add: record_call_def record_expense_def Let_def)

lemma config_record_all [simp]:
  "daily_budget (record_all t cs) = daily_budget t"
  "weekly_budget (record_all t cs) = weekly_budget t"
  "monthly_budget (record_all t cs) = monthly_budget t"
  "bt_warning_threshold (record_all t cs) = bt_warning_threshold t"
  "bt_critical_threshold (record_all t cs) = bt_critical_threshold t"
  unfolding record_all_def
  by (induction cs arbitrary: t; simp)+

lemma daily_status_same_day:
  assumes "\<forall>c\<in>set cs. dt_date (now_periods (ec_clock c)) = current_day t"
    and "dt_date now = current_day t"
  shows "daily_remaining (fst (check_budget_status now now_w (record_all t cs)))
           = max 0 (daily_budget t - (daily_expenses t + sum_list (map ec_cost cs)))"
    and "is_warning (fst (check_budget_status now now_w (record_all t cs)))
           \<longleftrightarrow> max 0 (daily_budget t - (daily_expenses t + sum_list (map ec_cost cs))) \<le> bt_warning_threshold t"
    and "is_critical (fst (check_budget_status now now_w (record_all t cs)))
           \<longleftrightarrow> max 0 (daily_budget t - (daily_expenses t + sum_list (map ec_cost cs))) \<le> bt_critical_threshold t"
  using daily_record_all_same_day [OF assms(1)] assms(2)
  by (simp_all add: check_budget_status_def status_of_def Let_def counters_update_periods)

text \<open>
  Claim C2, as stated, fails. With \<^verbatim>\<open>daily_limit=10\<close>, \<^verbatim>\<open>warning_threshold=2\<close> and
  \<^verbatim>\<open>critical_threshold=0.5\<close>, one expense of 9.6 leaves a daily remaining of 0.4, which is
  below the critical threshold: \<^verbatim>\<open>is_critical\<close> is \<^verbatim>\<open>True\<close>, not \<^verbatim>\<open>False\<close>.
\<close>

theorem scenario_9_6_is_critical:
  "\<not> (is_warning (fst (check_budget_status (noon 739924) (noon 739924)
          (record_all (BudgetTracker_init scenario_budget (noon 739924) (noon 739924) (noon 739924))
             [plain_call 739924 (96/10)])))
      \<and> \<not> is_critical (fst (check_budget_status (noon 739924) (noon 739924)
          (record_all (BudgetTracker_init scenario_budget (noon 739924) (noon 739924) (noon 739924))
             [plain_call 739924 (96/10)]))))"
  by (simp add: check_budget_status_def status_of_def Let_def record_all_def record_call_def
      record_expense_def BudgetTracker_init_def scenario_budget_def plain_call_def at_noon_def
      noon_def get_or_def update_periods_def update_day_def update_week_def update_month_def)

text \<open>
  Claim C2, amended. With \<^verbatim>\<open>daily_limit=10\<close>, \<^verbatim>\<open>warning_threshold=2\<close> and
  \<^verbatim>\<open>critical_threshold=0.5\<close>, after \<^verbatim>\<open>record_expense\<close> calls within the current day whose
  costs sum to 9.6, \<^verbatim>\<open>check_budget_status\<close> returns \<^verbatim>\<open>is_warning=True\<close> and
  \<^verbatim>\<open>is_critical=True\<close>; after costs summing to 9.51 it returns \<^verbatim>\<open>is_critical=True\<close>.
\<close>

theorem budget_scenario:
  assumes "daily_limit bc = Some 10" and "warning_threshold bc = Some 2"
    and "critical_threshold bc = Some (1/2)"
    and "\<forall>c\<in>set cs1. dt_date (now_periods (ec_clock c)) = dt_date now_d"
    and "\<forall>c\<in>set cs2. dt_date (now_periods (ec_clock c)) = dt_date now_d"
    and "dt_date now = dt_date now_d"
    and "sum_list (map ec_cost cs1) = 96/10"
    and "sum_list (map ec_cost cs2) = 951/100"
  shows "is_warning (fst (check_budget_status now now_w
            (record_all (BudgetTracker_init bc now_d now_w0 now_m) cs1)))
       \<and> is_critical (fst (check_budget_status now now_w
            (record_all (BudgetTracker_init bc now_d now_w0 now_m) cs1)))
       \<and> is_critical (fst (check_budget_status now now_w
            (record_all (BudgetTracker_init bc now_d now_w0 now_m) cs2)))"
proof -
  let ?t = "BudgetTracker_init bc now_d now_w0 now_m"
  have day: "current_day ?t = dt_date now_d" and zero: "daily_expenses ?t = 0"
    and lim: "daily_budget ?t = 10" and w: "bt_warning_threshold ?t = 2"
    and c: "bt_critical_threshold ?t = 1/2"
    using assms(1-3) by (simp_all add: BudgetTracker_init_def get_or_def)
  have a1: "\<forall>c\<in>set cs1. dt_date (now_periods (ec_clock c)) = current_day ?t"
    and a2: "\<forall>c\<in>set cs2. dt_date (now_periods (ec_clock c)) = current_day ?t"
    and a3: "dt_date now = current_day ?t"
    using assms(4-6) day by simp_all
  show ?thesis
    using daily_status_same_day(2,3) [OF a1 a3, of now_w] daily_status_same_day(3) [OF a2 a3, of now_w]
    by (simp add: zero lim w c assms(7,8))
qed

theorem budget_scenario_witness:
  "daily_limit scenario_budget = Some 10 \<and> warning_threshold scenario_budget = Some 2
   \<and> critical_threshold scenario_budget = Some (1/2)
   \<and> list_all (\<lambda>c. dt_date (now_periods (ec_clock c)) = dt_date (noon 739924))
         [plain_call 739924 (96/10)]
   \<and> list_all (\<lambda>c. dt_date (now_periods (ec_clock c)) = dt_date (noon 739924))
         [plain_call 739924 9, plain_call 739924 (51/100)]
   \<and> sum_list (map ec_cost [plain_call 739924 (96/10)]) = 96/10
   \<and> sum_list (map ec_cost [plain_call 739924 9, plain_call 739924 (51/100)]) = 951/100
   \<and> is_warning (fst (check_budget_status (noon 739924) (noon 739924)
          (record_all (BudgetTracker_init scenario_budget (noon 739924) (noon 739924) (noon 739924))
             [plain_call 739924 (96/10)])))
   \<and> is_critical (fst (check_budget_status (noon 739924) (noon 739924)
          (record_all (BudgetTracker_init scenario_budget (noon 739924) (noon 739924) (noon 739924))
             [plain_call 739924 (96/10)])))
   \<and> is_critical (fst (check_budget_status (noon 739924) (noon 739924)
          (record_all (BudgetTracker_init scenario_budget (noon 739924) (noon 739924) (noon 739924))
             [plain_call 739924 9, plain_call 739924 (51/100)])))"
proof -
  have c: "daily_limit scenario_budget = Some 10" "warning_threshold scenario_budget = Some 2"
    "critical_threshold scenario_budget = Some (1/2)"
    by (simp_all add: scenario_budget_def)
  have l1: "list_all (\<lambda>c. dt_date (now_periods (ec_clock c)) = dt_date (noon 739924))
      [plain_call 739924 (96/10)]"
    and l2: "list_all (\<lambda>c. dt_date (now_periods (ec_clock c)) = dt_date (noon 739924))
      [plain_call 739924 9, plain_call 739924 (51/100)]"
    by (simp_all add: plain_call_def at_noon_def)
  note d1 = l1 [unfolded list_all_iff] and d2 = l2 [unfolded list_all_iff]
  have s1: "sum_list (map ec_cost [plain_call 739924 (96/10)]) = 96/10"
    and s2: "sum_list (map ec_cost [plain_call 739924 9, plain_call 739924 (51/100)]) = 951/100"
    by (simp_all add: plain_call_def)
  note r = budget_scenario [OF c d1 d2 refl s1 s2]
  show ?thesis
    by (intro conjI c l1 l2 s1 s2 r [THEN conjunct1] r [THEN conjunct2, THEN conjunct1]
        r [THEN conjunct2, THEN conjunct2])
qed

lemma counters_record_call:
  "daily_expenses (record_call t c) = daily_expenses (update_periods (now_periods (ec_clock c)) (now_week (ec_clock c)) t) + ec_cost c"
  "weekly_expenses (record_call t c) = weekly_expenses (update_periods (now_periods (ec_clock c)) (now_week (ec_clock c)) t) + ec_cost c"
  "monthly_expenses (record_call t c) = monthly_expenses (update_periods (now_periods (ec_clock c)) (now_week (ec_clock c)) t) + ec_cost c"
  by (simp_all add: record_call_def record_expense_def Let_def)

lemma counters_nonneg_update_periods:
  "counters_nonneg t \<Longrightarrow> counters_nonneg (update_periods now now_w t)"
  by (simp add: counters_nonneg_def counters_update_periods)

lemma counters_nonneg_record_call:
  assumes "counters_nonneg t" and "0 \<le> ec_cost c"
  shows "counters_nonneg (record_call t c)"
proof -
  let ?u = "update_periods (now_periods (ec_clock c)) (now_week (ec_clock c)) t"
  have "counters_nonneg ?u" using assms(1) by (rule counters_nonneg_update_periods)
  then show ?thesis
    using assms(2) by (simp add: counters_nonneg_def counters_record_call)
qed

lemma counters_nonneg_reset: "counters_nonneg (reset_budgets now_d now_w now_m t)"
  by (simp add: counters_nonneg_def reset_budgets_def)

lemma counters_nonneg_init: "counters_nonneg (BudgetTracker_init bc now_d now_w now_m)"
  by (simp add: counters_nonneg_def BudgetTracker_init_def)

lemma counters_nonneg_apply_op:
  "counters_nonneg t \<Longrightarrow> op_cost_nonneg p \<Longrightarrow> counters_nonneg (apply_op t p)"
  by (cases p) (simp_all add: counters_nonneg_record_call counters_nonneg_reset
      counters_nonneg_update_periods check_budget_status_def Let_def)

lemma counters_nonneg_run_ops:
  "counters_nonneg t \<Longrightarrow> list_all op_cost_nonneg ops \<Longrightarrow> counters_nonneg (run_ops t ops)"
  unfolding run_ops_def
  by (induction ops arbitrary: t) (simp_all add: counters_nonneg_apply_op)

text \<open>
  Claim C3, amended. After any sequence of \<^verbatim>\<open>record_expense\<close>, \<^verbatim>\<open>check_budget_status\<close>
  and \<^verbatim>\<open>reset_budgets\<close> calls, with any clock readings (so with any period rollovers),
  in which every recorded cost is non-negative, none of the daily, weekly and monthly
  counters is negative. (The comparison of \<^verbatim>\<open>get_total_expenses()\<close> with a counter is
  left out: the two are float sums of the same costs by different routes, \<^verbatim>\<open>sum()\<close> over
  the ledger and \<^verbatim>\<open>+=\<close> on the counter, and their last bits can differ either way.)
\<close>

theorem counters_never_negative:
  assumes "list_all op_cost_nonneg ops"
  shows "(let t = run_ops (BudgetTracker_init bc now_d now_w now_m) ops in
           0 \<le> daily_expenses t \<and> 0 \<le> weekly_expenses t \<and> 0 \<le> monthly_expenses t)"
  using counters_nonneg_run_ops [OF counters_nonneg_init assms, of bc now_d now_w now_m]
  by (simp add: counters_nonneg_def Let_def)

theorem counters_never_negative_witness:
  "list_all op_cost_nonneg
     [RecordExpense (plain_call 739924 3), CheckBudgetStatus (noon 739925) (noon 739925),
      RecordExpense (plain_call 739925 float_0_1)]
   \<and> (let t = run_ops (BudgetTracker_init scenario_budget (noon 739924) (noon 739924) (noon 739924))
              [RecordExpense (plain_call 739924 3), CheckBudgetStatus (noon 739925) (noon 739925),
               RecordExpense (plain_call 739925 float_0_1)] in
           0 \<le> daily_expenses t \<and> 0 \<le> weekly_expenses t \<and> 0 \<le> monthly_expenses t)"
proof -
  have h: "list_all op_cost_nonneg
     [RecordExpense (plain_call 739924 3), CheckBudgetStatus (noon 739925) (noon 739925),
      RecordExpense (plain_call 739925 float_0_1)]"
    by (simp add: plain_call_def float_0_1_def)
  show ?thesis
    by (intro conjI h counters_never_negative [OF h])
qed

text \<open>
  Claim C3, as stated for any sequence of calls, fails: \<^verbatim>\<open>record_expense\<close> accepts a
  negative cost, and after \<^verbatim>\<open>record_expense(-1)\<close> the daily counter is negative.
\<close>

theorem negative_cost_breaks_counters:
  "daily_expenses (run_ops (BudgetTracker_init scenario_budget (noon 739924) (noon 739924) (noon 739924))
       [RecordExpense (plain_call 739924 (-1))]) < 0"
  by (simp add: run_ops_def record_call_def
      record_expense_def BudgetTracker_init_def plain_call_def at_noon_def
      noon_def update_periods_def update_day_def update_week_def update_month_def)

lemma counters_record_call_in_period:
  assumes "call_in_period t c"
  shows "daily_expenses (record_call t c) = daily_expenses t + ec_cost c"
    and "weekly_expenses (record_call t c) = weekly_expenses t + ec_cost c"
    and "monthly_expenses (record_call t c) = monthly_expenses t + ec_cost c"
  using assms
  by (simp_all add: call_in_period_def counters_record_call update_periods_in_period)

lemma anchors_record_call_in_period:
  assumes "call_in_period t c"
  shows "current_day (record_call t c) = current_day t"
    and "current_week (record_call t c) = current_week t"
    and "current_month (record_call t c) = current_month t"
  using assms
  by (simp_all add: call_in_period_def in_period_def record_call_def record_expense_def Let_def)

lemma call_in_period_cong:
  "current_day u = current_day t \<Longrightarrow> current_week u = current_week t \<Longrightarrow>
   current_month u = current_month t \<Longrightarrow> call_in_period u c = call_in_period t c"
  by (simp add: call_in_period_def in_period_def)

lemma record_all_in_period:
  assumes "\<forall>c\<in>set cs. call_in_period t c \<and> 0 \<le> ec_cost c"
  shows "daily_expenses t \<le> daily_expenses (record_all t cs)
       \<and> weekly_expenses t \<le> weekly_expenses (record_all t cs)
       \<and> monthly_expenses t \<le> monthly_expenses (record_all t cs)
       \<and> current_day (record_all t cs) = current_day t
       \<and> current_week (record_all t cs) = current_week t
       \<and> current_month (record_all t cs) = current_month t"
  using assms unfolding record_all_def
proof (induction cs arbitrary: t)
  case Nil
  then show ?case by simp
next
  case (Cons c cs)
  have c: "call_in_period t c" and nn: "0 \<le> ec_cost c"
    using Cons.prems by simp_all
  note anch = anchors_record_call_in_period [OF c]
  have "\<forall>c'\<in>set cs. call_in_period (record_call t c) c' \<and> 0 \<le> ec_cost c'"
    using Cons.prems call_in_period_cong [OF anch] by simp
  from Cons.IH [OF this] show ?case
    using nn by (simp add: counters_record_call_in_period [OF c] anch)
qed

lemma status_in_period:
  "in_period t now now_w \<Longrightarrow> fst (check_budget_status now now_w t) = status_of t"
  by (simp add: check_budget_status_def Let_def update_periods_in_period)

lemma remaining_status_of_mono:
  assumes "daily_budget u = daily_budget t" "weekly_budget u = weekly_budget t"
    "monthly_budget u = monthly_budget t"
    "daily_expenses t \<le> daily_expenses u" "weekly_expenses t \<le> weekly_expenses u"
    "monthly_expenses t \<le> monthly_expenses u"
  shows "remaining (status_of u) \<le> remaining (status_of t)"
  using assms by (simp add: status_of_def Let_def) linarith

lemma record_all_append: "record_all t (xs @ ys) = record_all (record_all t xs) ys"
  by (simp add: record_all_def)

lemma rollover_remaining:
  "dt_date now \<noteq> current_day u \<Longrightarrow> 0 \<le> daily_budget u \<Longrightarrow>
     daily_remaining (fst (check_budget_status now now_w u)) = daily_budget u"
  "get_week_start now_w \<noteq> current_week u \<Longrightarrow> 0 \<le> weekly_budget u \<Longrightarrow>
     weekly_remaining (fst (check_budget_status now now_w u)) = weekly_budget u"
  "month_start now \<noteq> current_month u \<Longrightarrow> 0 \<le> monthly_budget u \<Longrightarrow>
     monthly_remaining (fst (check_budget_status now now_w u)) = monthly_budget u"
  by (simp_all add: check_budget_status_def status_of_def Let_def counters_update_periods)

lemma day_of_month_740013: "day_of_month 740013 = 1"
  by code_simp

lemma day_of_month_740012: "day_of_month 740012 = 31"
  by code_simp

text \<open>
  Claim C7. Along a run of \<^verbatim>\<open>record_expense\<close> calls with non-negative costs, all within
  the tracker's current day, week and month, \<^verbatim>\<open>check_budget_status()['remaining']\<close> does
  not increase: its value after the calls \<open>xs @ ys\<close> is at most its value after \<open>xs\<close>.
  And a status check whose clock reading is in a new day (week, month) reports the full
  configured daily (weekly, monthly) limit as that period's remaining; the limit is a budget,
  taken non-negative.
\<close>

theorem remaining_monotone_and_reset:
  assumes "\<forall>c\<in>set (xs @ ys). call_in_period t c \<and> 0 \<le> ec_cost c"
    and "in_period t now1 now_w1" and "in_period t now2 now_w2"
  shows "remaining (fst (check_budget_status now2 now_w2 (record_all t (xs @ ys))))
           \<le> remaining (fst (check_budget_status now1 now_w1 (record_all t xs)))
       \<and> (dt_date now \<noteq> current_day u \<and> 0 \<le> daily_budget u \<longrightarrow>
            daily_remaining (fst (check_budget_status now now_w u)) = daily_budget u)
       \<and> (get_week_start now_w \<noteq> current_week u \<and> 0 \<le> weekly_budget u \<longrightarrow>
            weekly_remaining (fst (check_budget_status now now_w u)) = weekly_budget u)
       \<and> (month_start now \<noteq> current_month u \<and> 0 \<le> monthly_budget u \<longrightarrow>
            monthly_remaining (fst (check_budget_status now now_w u)) = monthly_budget u)"
proof -
  let ?a = "record_all t xs"
  let ?b = "record_all t (xs @ ys)"
  have xs: "\<forall>c\<in>set xs. call_in_period t c \<and> 0 \<le> ec_cost c"
    and ys0: "\<forall>c\<in>set ys. call_in_period t c \<and> 0 \<le> ec_cost c"
    using assms(1) by simp_all
  note a = record_all_in_period [OF xs]
  have ys: "\<forall>c\<in>set ys. call_in_period ?a c \<and> 0 \<le> ec_cost c"
    using ys0 a call_in_period_cong [of ?a t] by simp
  have b: "daily_expenses ?a \<le> daily_expenses ?b \<and> weekly_expenses ?a \<le> weekly_expenses ?b
       \<and> monthly_expenses ?a \<le> monthly_expenses ?b
       \<and> current_day ?b = current_day ?a \<and> current_week ?b = current_week ?a
       \<and> current_month ?b = current_month ?a"
    using record_all_in_period [OF ys] by (simp add: record_all_append)
  have pa: "in_period ?a now1 now_w1" using assms(2) a by (simp add: in_period_def)
  have pb: "in_period ?b now2 now_w2" using assms(3) a b by (simp add: in_period_def)
  have "remaining (status_of ?b) \<le> remaining (status_of ?a)"
    using b by (intro remaining_status_of_mono) simp_all
  then have mono: "remaining (fst (check_budget_status now2 now_w2 ?b))
           \<le> remaining (fst (check_budget_status now1 now_w1 ?a))"
    by (simp add: status_in_period [OF pa] status_in_period [OF pb])
  show ?thesis
    using mono rollover_remaining [where now = now and u = u and now_w = now_w] by blast
qed

theorem remaining_monotone_and_reset_witness:
  "list_all (\<lambda>c. call_in_period sunday_tracker c \<and> 0 \<le> ec_cost c)
      ([plain_call 740012 1] @ [plain_call 740012 2])
   \<and> in_period sunday_tracker (noon 740012) (noon 740012)
   \<and> remaining (fst (check_budget_status (noon 740012) (noon 740012)
          (record_all sunday_tracker ([plain_call 740012 1] @ [plain_call 740012 2]))))
       \<le> remaining (fst (check_budget_status (noon 740012) (noon 740012)
          (record_all sunday_tracker [plain_call 740012 1])))
   \<and> (dt_date (noon 740013) \<noteq> current_day sunday_tracker \<and> 0 \<le> daily_budget sunday_tracker)
   \<and> daily_remaining (fst (check_budget_status (noon 740013) (noon 740013) sunday_tracker))
       = daily_budget sunday_tracker
   \<and> (get_week_start (noon 740013) \<noteq> current_week sunday_tracker
       \<and> 0 \<le> weekly_budget sunday_tracker)
   \<and> weekly_remaining (fst (check_budget_status (noon 740013) (noon 740013) sunday_tracker))
       = weekly_budget sunday_tracker
   \<and> (month_start (noon 740013) \<noteq> current_month sunday_tracker
       \<and> 0 \<le> monthly_budget sunday_tracker)
   \<and> monthly_remaining (fst (check_budget_status (noon 740013) (noon 740013) sunday_tracker))
       = monthly_budget sunday_tracker"
proof -
  have anchors: "current_day sunday_tracker = 740012"
    "current_week sunday_tracker = get_week_start (noon 740012)"
    "current_month sunday_tracker = month_start (noon 740012)"
    by (simp_all add: sunday_tracker_def record_all_def record_call_def record_expense_def Let_def
        plain_call_def at_noon_def noon_def BudgetTracker_init_def)
  have limits: "daily_budget sunday_tracker = 10" "weekly_budget sunday_tracker = 50"
    "monthly_budget sunday_tracker = 200"
    by (simp_all add: sunday_tracker_def BudgetTracker_init_def scenario_budget_def get_or_def)
  have l1: "list_all (\<lambda>c. call_in_period sunday_tracker c \<and> 0 \<le> ec_cost c)
      ([plain_call 740012 1] @ [plain_call 740012 2])"
    by (simp add: call_in_period_def in_period_def anchors plain_call_def at_noon_def noon_def)
  note h1 = l1 [unfolded list_all_iff]
  have h2: "in_period sunday_tracker (noon 740012) (noon 740012)"
    by (simp add: in_period_def anchors noon_def)
  have d: "dt_date (noon 740013) \<noteq> current_day sunday_tracker \<and> 0 \<le> daily_budget sunday_tracker"
    by (simp add: anchors limits noon_def)
  have w: "get_week_start (noon 740013) \<noteq> current_week sunday_tracker
      \<and> 0 \<le> weekly_budget sunday_tracker"
    by (simp add: anchors limits noon_def get_week_start_def weekday_def)
  have ms: "month_start (noon 740013) = 740013" "month_start (noon 740012) = 739982"
    by (simp_all add: month_start_def noon_def day_of_month_740013 day_of_month_740012)
  have m: "month_start (noon 740013) \<noteq> current_month sunday_tracker
      \<and> 0 \<le> monthly_budget sunday_tracker"
    by (simp add: anchors limits ms)
  note r = remaining_monotone_and_reset [OF h1 h2 h2, of "noon 740013" sunday_tracker "noon 740013"]
  note r1 = r [THEN conjunct1]
  note rd = r [THEN conjunct2, THEN conjunct1, THEN mp, OF d]
  note rw = r [THEN conjunct2, THEN conjunct2, THEN conjunct1, THEN mp, OF w]
  note rm = r [THEN conjunct2, THEN conjunct2, THEN conjunct2, THEN mp, OF m]
  show ?thesis
    by (intro conjI l1 h2 r1 d [THEN conjunct1] d [THEN conjunct2] rd w [THEN conjunct1]
        w [THEN conjunct2] rw m [THEN conjunct1] m [THEN conjunct2] rm)
qed

subsection \<open>The model selector\<close>

lemma models_premium_disabled:
  "map_of (models (ModelSelector_init premium_disabled_config)) ''premium'' = None"
  by (simp add: ModelSelector_init_def initialize_models_def premium_disabled_config_def
      create_default_config_def get_or_def)

lemma thresholds_premium_disabled:
  "thresholds (ModelSelector_init premium_disabled_config)
     = \<lparr>th_premium = Some (8/10), th_mid = Some (5/10), th_open = Some (2/10)\<rparr>"
  by (simp add: ModelSelector_init_def premium_disabled_config_def create_default_config_def)

text \<open>
  Claim C1 says that \<^verbatim>\<open>select_model\<close> returns, without raising, a tier of the instantiated
  catalog, for every complexity and budget status. The code does not: with the premium tier
  disabled in the configuration (the default configuration otherwise), complexity 0.9 and an
  empty budget status, the premium branch is taken and \<^verbatim>\<open>self.models['premium']\<close> raises
  \<^verbatim>\<open>KeyError\<close>, since \<^verbatim>\<open>_initialize_models\<close> created no client for a disabled tier.
\<close>

theorem select_model_raises_on_disabled_tier:
  "select_model (ModelSelector_init premium_disabled_config) (9/10)
     \<lparr>sd_is_critical = None, sd_remaining = None\<rparr> = Inl (KeyError ''premium'')"
  by (simp add: select_model_def can_afford_model_def return_model_def get_or_def
      thresholds_premium_disabled models_premium_disabled)

lemma initialize_loop_keeps: "map_of ms k \<noteq> None \<Longrightarrow> map_of (initialize_loop xs ms) k \<noteq> None"
  by (induction xs ms rule: initialize_loop.induct) (auto simp: update_conv')

lemma initialize_loop_enabled:
  "(k, mc) \<in> set xs \<Longrightarrow> get_or (enabled mc) False \<Longrightarrow> map_of (initialize_loop xs ms) k \<noteq> None"
proof (induction xs ms rule: initialize_loop.induct)
  case (1 ms)
  then show ?case by simp
next
  case (2 mt c rest ms)
  show ?case
  proof (cases "(k, mc) = (mt, c)")
    case True
    then have "map_of (AList.update mt (create_mock_client mt c) ms) k \<noteq> None"
      by (simp add: update_conv')
    then show ?thesis
      using True "2.prems"(2) by (simp add: initialize_loop_keeps)
  next
    case False
    then have "(k, mc) \<in> set rest" using "2.prems"(1) by auto
    from "2.IH" [OF this "2.prems"(2)] show ?thesis by simp
  qed
qed

lemma rule_always_initialized: "map_of (initialize_models cfg) ''rule'' \<noteq> None"
  by (simp add: initialize_models_def Let_def update_conv')

lemma enabled_tier_initialized:
  "(k, mc) \<in> set (cfg_models cfg) \<Longrightarrow> get_or (enabled mc) False \<Longrightarrow>
   map_of (initialize_models cfg) k \<noteq> None"
  using initialize_loop_enabled [of k mc "cfg_models cfg" "[]"]
  by (auto simp: initialize_models_def Let_def update_conv')

text \<open>
  With the four tiers in the catalog the call does return a tier of the catalog, and it
  returns \<^verbatim>\<open>rule\<close> below the open threshold (for thresholds in their order) and when
  the budget is critical and neither the mid nor the open tier is affordable.
\<close>

lemma select_model_in_catalog:
  assumes "map_of (models s) ''premium'' \<noteq> None" "map_of (models s) ''mid'' \<noteq> None"
    "map_of (models s) ''open'' \<noteq> None" "map_of (models s) ''rule'' \<noteq> None"
  shows "\<exists>tier client. select_model s complexity bs = Inr (tier, client)
           \<and> map_of (models s) tier = Some client"
  using assms
  by (auto simp: select_model_def select_mid_def select_open_def return_model_def Let_def)

lemma select_model_rule_below_open:
  assumes "map_of (models s) ''rule'' = Some cr"
    and "complexity \<le> get_or (th_open (thresholds s)) (2/10)"
    and "get_or (th_open (thresholds s)) (2/10) \<le> get_or (th_mid (thresholds s)) (5/10)"
    and "get_or (th_open (thresholds s)) (2/10) \<le> get_or (th_premium (thresholds s)) (8/10)"
  shows "select_model s complexity bs = Inr (''rule'', cr)"
  using assms
  by (simp add: select_model_def select_mid_def select_open_def return_model_def Let_def)

lemma select_model_rule_when_critical:
  assumes "map_of (models s) ''rule'' = Some cr"
    and "get_or (sd_is_critical bs) False" and "sd_remaining bs = Some r"
    and "\<not> can_afford_model s ''mid'' (Finite r)" and "\<not> can_afford_model s ''open'' (Finite r)"
  shows "select_model s complexity bs = Inr (''rule'', cr)"
  using assms
  by (simp add: select_model_def select_mid_def select_open_def return_model_def Let_def)

text \<open>
  Claim C8, amended. With thresholds premium 0.8, mid 0.5, open 0.2, complexity 0.85, a
  budget that is not critical, a premium floor of 0.001 and the four tiers in the catalog:
  with 5.0 remaining \<^verbatim>\<open>select_model\<close> returns \<^verbatim>\<open>premium\<close>; with 0.0005 remaining it returns
  \<^verbatim>\<open>mid\<close> if mid is affordable, else \<^verbatim>\<open>open\<close> if open is affordable, else \<^verbatim>\<open>rule\<close>.
\<close>

theorem premium_scenario:
  assumes "thresholds s = \<lparr>th_premium = Some (8/10), th_mid = Some (5/10), th_open = Some (2/10)\<rparr>"
    and "min_cost s ''premium'' = 1/1000"
    and "map_of (models s) ''premium'' = Some cp" and "map_of (models s) ''mid'' = Some cm"
    and "map_of (models s) ''open'' = Some co" and "map_of (models s) ''rule'' = Some cr"
  shows "select_model s (85/100) \<lparr>sd_is_critical = Some False, sd_remaining = Some 5\<rparr>
           = Inr (''premium'', cp)
       \<and> select_model s (85/100) \<lparr>sd_is_critical = Some False, sd_remaining = Some (5/10000)\<rparr>
           = (if can_afford_model s ''mid'' (Finite (5/10000)) then Inr (''mid'', cm)
              else if can_afford_model s ''open'' (Finite (5/10000)) then Inr (''open'', co)
              else Inr (''rule'', cr))"
  using assms
  by (simp add: select_model_def select_mid_def select_open_def return_model_def Let_def
      can_afford_model_def get_or_def)

lemma floors_selector:
  "thresholds (ModelSelector_init (floors_config a b))
     = \<lparr>th_premium = Some (8/10), th_mid = Some (5/10), th_open = Some (2/10)\<rparr>"
  "min_cost (ModelSelector_init (floors_config a b)) ''premium'' = 1/1000"
  "min_cost (ModelSelector_init (floors_config a b)) ''mid'' = a"
  "min_cost (ModelSelector_init (floors_config a b)) ''open'' = b"
  by (simp_all add: ModelSelector_init_def floors_config_def create_default_config_def
      min_cost_def get_model_info_def get_or_def)

lemma floors_models:
  "map_of (models (ModelSelector_init (floors_config a b))) ''premium''
     = Some (create_mock_client ''premium'' (get_model_info (floors_config a b) ''premium''))"
  "map_of (models (ModelSelector_init (floors_config a b))) ''mid''
     = Some (create_mock_client ''mid'' (get_model_info (floors_config a b) ''mid''))"
  "map_of (models (ModelSelector_init (floors_config a b))) ''open''
     = Some (create_mock_client ''open'' (get_model_info (floors_config a b) ''open''))"
  "map_of (models (ModelSelector_init (floors_config a b))) ''rule''
     = Some (create_mock_client ''rule'' (get_model_info (floors_config a b) ''rule''))"
  by (simp_all add: ModelSelector_init_def initialize_models_def floors_config_def
      create_default_config_def get_model_info_def get_or_def)

theorem premium_scenario_witness:
  "select_model (ModelSelector_init (floors_config (1/1000) (1/10000))) (85/100)
       \<lparr>sd_is_critical = Some False, sd_remaining = Some 5\<rparr>
     = Inr (''premium'', create_mock_client ''premium''
              (get_model_info (floors_config (1/1000) (1/10000)) ''premium''))
   \<and> select_model (ModelSelector_init (floors_config (1/1000) (1/10000))) (85/100)
       \<lparr>sd_is_critical = Some False, sd_remaining = Some (5/10000)\<rparr>
     = Inr (''open'', create_mock_client ''open''
              (get_model_info (floors_config (1/1000) (1/10000)) ''open''))"
  using premium_scenario [OF floors_selector(1,2) floors_models, of "1/1000" "1/10000"]
  by (simp add: can_afford_model_def floors_selector)

text \<open>
  Claim C8, as stated, fails: with 0.0005 remaining, a mid floor of 0.001 (not affordable)
  and an open floor of 0.0001 (affordable), \<^verbatim>\<open>select_model\<close> returns \<^verbatim>\<open>open\<close>, not
  \<^verbatim>\<open>rule\<close>.
\<close>

theorem fallback_reaches_open_tier:
  "\<not> can_afford_model (ModelSelector_init (floors_config (1/1000) (1/10000))) ''mid''
        (Finite (5/10000))
   \<and> tier_of (select_model (ModelSelector_init (floors_config (1/1000) (1/10000))) (85/100)
        \<lparr>sd_is_critical = Some False, sd_remaining = Some (5/10000)\<rparr>) = Inr ''open''"
  by (simp add: select_model_def select_mid_def select_open_def return_model_def Let_def
      can_afford_model_def get_or_def floors_selector floors_models tier_of_def)

subsection \<open>The complexity scorer\<close>

lemma sigmoid_bounds: "0 < sigmoid_normalize x" "sigmoid_normalize x < 1"
proof -
  have e: "0 < exp (- 10 * (x - 1/2))" by (rule exp_gt_zero)
  have d: "0 < 1 + exp (- 10 * (x - 1/2))" using e by linarith
  show "0 < sigmoid_normalize x"
    unfolding sigmoid_normalize_def using d by (rule divide_pos_pos [OF zero_less_one])
  have "1 < 1 + exp (- 10 * (x - 1/2))" using e by linarith
  then show "sigmoid_normalize x < 1"
    unfolding sigmoid_normalize_def using d by (simp only: divide_less_eq_1_pos)
qed

lemma clip_sigmoid: "max 0 (min 1 (sigmoid_normalize x)) = sigmoid_normalize x"
  using sigmoid_bounds [of x] by simp

lemma sigmoid_inj: "sigmoid_normalize x = sigmoid_normalize y \<longleftrightarrow> x = y"
proof
  assume "sigmoid_normalize x = sigmoid_normalize y"
  then have "1 + exp (- 10 * (x - 1/2)) = 1 + exp (- 10 * (y - 1/2))"
    unfolding sigmoid_normalize_def
    by (metis add_pos_pos exp_gt_zero inverse_eq_divide inverse_inverse_eq zero_less_one)
  then have "exp (- 10 * (x - 1/2)) = exp (- 10 * (y - 1/2))" by simp
  then show "x = y" by simp
qed simp

lemma extract_features_no_context:
  "\<not> truthy context \<Longrightarrow> extract_features d context = Inr (description_features d)"
  by (simp add: extract_features_def)

lemma description_features_keys:
  "map fst (description_features d) =
     [''word_count'', ''app_count'', ''has_inter_app_dependency'', ''requires_text_processing'',
      ''requires_navigation'', ''requires_data_manipulation'', ''step_count_estimate'',
      ''has_conditional_logic'']"
  by (simp add: description_features_def Let_def)

lemma description_features_no_context_key:
  assumes "k \<in> set context_features"
  shows "map_of (description_features d) k = None"
proof -
  have "k \<notin> set (map fst (description_features d))"
    using assms unfolding description_features_keys context_features_def by auto
  then show ?thesis
    by (simp add: map_of_eq_None_iff)
qed

lemma extract_features_dict:
  "items \<noteq> [] \<Longrightarrow> extract_features d (CtxDict items) =
     Inr (AList.update ''user_skill_level'' (get_or (map_of items ''user_skill_level'') (PyFloat (1/2)))
           (AList.update ''similar_tasks_complexity''
              (get_or (map_of items ''similar_tasks_complexity'') (PyFloat (1/2)))
             (AList.update ''historical_success_rate''
                (get_or (map_of items ''historical_success_rate'') (PyFloat (1/2)))
               (description_features d))))"
  by (simp add: extract_features_def)

lemma extract_features_dict_key:
  assumes "items \<noteq> []" and "k \<in> set context_features"
    and "extract_features d (CtxDict items) = Inr fs"
  shows "map_of fs k = Some (get_or (map_of items k) (PyFloat (1/2)))"
  using assms(2,3) unfolding extract_features_dict [OF assms(1)]
  by (auto simp: update_conv' context_features_def)


lemma float_limit_large: "2 ^ 64 \<le> float_limit"
proof -
  have "(2::real) ^ 970 \<le> 2 ^ 1023" by (rule power_increasing) simp_all
  moreover have "(2::real) ^ 64 \<le> 2 ^ 1023" by (rule power_increasing) simp_all
  moreover have "(2::real) ^ 1024 = 2 * 2 ^ 1023" by simp
  ultimately show ?thesis unfolding float_limit_def by linarith
qed

lemma int_to_float_safe: "\<bar>real_of_int n\<bar> < float_limit \<Longrightarrow> int_to_float n = Inr (real_of_int n)"
  by (simp add: int_to_float_def)

lemma int_truediv_safe:
  assumes "\<bar>real_of_int n\<bar> < float_limit" and "1 \<le> d"
  shows "int_truediv n d = Inr (real_of_int n / real_of_int d)"
proof -
  have "\<bar>real_of_int n / real_of_int d\<bar> = \<bar>real_of_int n\<bar> / real_of_int d"
    using assms(2) by simp
  also have "\<dots> \<le> \<bar>real_of_int n\<bar> / 1"
    using assms(2) by (intro divide_left_mono) simp_all
  finally have "\<bar>real_of_int n / real_of_int d\<bar> < float_limit"
    using assms(1) by simp
  then show ?thesis by (simp add: int_truediv_def)
qed

lemma normalize_feature_safe:
  assumes "float_safe v"
  shows "\<exists>nv x. normalize_feature name v = Inr nv \<and> to_float nv = Inr x"
proof (cases v)
  case (PyInt n)
  then have n: "\<bar>real_of_int n\<bar> < float_limit" using assms by simp
  show ?thesis
    unfolding PyInt
    by (simp add: capped_def int_truediv_safe [OF n] int_to_float_safe [OF n])
next
  case (PyBool b)
  then show ?thesis by simp
next
  case (PyFloat x)
  then show ?thesis by simp
next
  case PyOther
  have "normalize_feature name PyOther = Inr (NumFloat (1/2))" by simp
  moreover have "to_float (NumFloat (1/2)) = Inr (1/2)" by simp
  ultimately show ?thesis unfolding PyOther by blast
qed

lemma weighted_loop_safe:
  assumes "\<And>k v. map_of fs k = Some v \<Longrightarrow> float_safe v"
  shows "\<exists>r. weighted_loop ws fs acc = Inr r"
proof (induction ws arbitrary: acc)
  case Nil
  then show ?case by simp
next
  case (Cons w ws)
  obtain name weight where w: "w = (name, weight)" by (cases w)
  obtain score total where acc: "acc = (score, total)" by (cases acc)
  show ?case
  proof (cases "map_of fs name")
    case None
    then show ?thesis unfolding w acc using Cons.IH by simp
  next
    case (Some v)
    from assms [OF Some] obtain nv x
      where "normalize_feature name v = Inr nv" "to_float nv = Inr x"
      using normalize_feature_safe by blast
    then show ?thesis unfolding w acc using Some Cons.IH by simp
  qed
qed

lemma calculate_weighted_score_safe:
  assumes "\<And>k v. map_of fs k = Some v \<Longrightarrow> float_safe v"
  shows "\<exists>score. calculate_weighted_score s fs = Inr score"
proof -
  have "\<exists>r. weighted_loop (merged_weights s) fs (0, 0) = Inr r"
    by (rule weighted_loop_safe) (rule assms)
  then obtain r where "weighted_loop (merged_weights s) fs (0, 0) = Inr r" ..
  then show ?thesis
    by (cases r) (simp add: calculate_weighted_score_def)
qed

lemma split_count_le: "split_count b d \<le> length d"
  by (induction d arbitrary: b) (simp_all add: le_SucI)

lemma delimiter_runs_le: "delimiter_runs b d \<le> length d"
  by (induction d arbitrary: b) (simp_all add: le_SucI)

lemma count_in_le: "count_in ws d \<le> length ws"
  by (simp add: count_in_def)

lemma small_int_safe:
  assumes "n \<le> 2 ^ 63"
  shows "float_safe (PyInt (int n))"
proof -
  have "real n \<le> real (2 ^ 63)"
    using assms by (simp only: of_nat_le_iff)
  then have "real n \<le> 2 ^ 63" by simp
  moreover have "(2::real) ^ 63 < 2 ^ 64" by simp
  ultimately have "real n < float_limit" using float_limit_large by linarith
  then show ?thesis by simp
qed

lemma description_features_safe:
  assumes "length d < 2 ^ 63" and "map_of (description_features d) k = Some v"
  shows "float_safe v"
proof -
  have len: "length (lower d) < 2 ^ 63" using assms(1) by (simp add: lower_def)
  have a: "split_count False d \<le> 2 ^ 63"
    using split_count_le [of False d] assms(1) by linarith
  have "count_apps (lower d) \<le> 9"
    using count_in_le [of _ "lower d"] by (simp add: count_apps_def count_in_def)
  then have b: "count_apps (lower d) \<le> 2 ^ 63" by simp
  have "1 + delimiter_runs False (lower d) \<le> 2 ^ 63"
    using delimiter_runs_le [of False "lower d"] len by linarith
  moreover have "count_in [''click'', ''type'', ''open'', ''close'', ''save'',
      ''create'', ''delete'', ''move'', ''copy'', ''paste''] (lower d) \<le> 2 ^ 63"
    using count_in_le [of _ "lower d"] by (simp add: count_in_def)
  ultimately have c: "estimate_step_count (lower d) \<le> 2 ^ 63"
    by (simp add: estimate_step_count_def Let_def)
  have "(k, v) \<in> set (description_features d)"
    using assms(2) by (rule map_of_SomeD)
  then show ?thesis
    using small_int_safe [OF a] small_int_safe [OF b] small_int_safe [OF c]
    by (auto simp: description_features_def Let_def)
qed

lemma context_value_safe:
  assumes "context_safe items"
  shows "float_safe (get_or (map_of items k) (PyFloat (1/2)))"
proof (cases "map_of items k")
  case None
  then show ?thesis by (simp add: get_or_def)
next
  case (Some v)
  then have "(k, v) \<in> set items" by (rule map_of_SomeD)
  then have "float_safe v"
    using assms by (auto simp: context_safe_def list_all_iff)
  then show ?thesis using Some by (simp add: get_or_def)
qed

lemma extract_features_safe:
  assumes "length d < 2 ^ 63" and "context = CtxNone \<or> (context = CtxDict items \<and> context_safe items)"
    and "extract_features d context = Inr fs" and "map_of fs k = Some v"
  shows "float_safe v"
proof (cases "truthy context")
  case False
  then have "fs = description_features d"
    using assms(3) by (simp add: extract_features_no_context)
  then show ?thesis
    using description_features_safe [OF assms(1)] assms(4) by simp
next
  case True
  then have ctx: "context = CtxDict items" and ne: "items \<noteq> []" and safe: "context_safe items"
    using assms(2) by auto
  show ?thesis
    using assms(3,4) description_features_safe [OF assms(1)] context_value_safe [OF safe]
    unfolding ctx extract_features_dict [OF ne]
    by (auto simp: update_conv' split: if_splits)
qed

lemma calculate_complexity_result:
  assumes "extract_features d context = Inr fs" and "calculate_weighted_score s fs = Inr score"
  shows "calculate_complexity s d context =
     Inr (sigmoid_normalize score,
          s\<lparr>history := history s @
             [\<lparr>sr_description = d, sr_features = fs,
               sr_score = sigmoid_normalize score, sr_context = context\<rparr>]\<rparr>)"
  using assms by (simp add: calculate_complexity_def Let_def clip_sigmoid)

text \<open>
  Claim C5, amended. For every scorer (its weights are floats), every task description (a
  string has fewer than \<open>2^63\<close> characters) and every context that is absent or a
  dictionary in which no integer is beyond the range of a float, \<^verbatim>\<open>calculate_complexity\<close>
  returns without raising, and its score is in the closed interval [0,1]. When the dictionary is not empty, each of the
  three context features is the dictionary's value for it, or the neutral 0.5 when the
  dictionary has none; when the context is absent or an empty dictionary, the features have
  no entry for the context features, which then add neither value nor weight to the score.
\<close>

theorem calculate_complexity_in_unit_interval:
  assumes "length d < 2 ^ 63"
    and "context = CtxNone \<or> (context = CtxDict items \<and> context_safe items)"
  shows "\<exists>score s' fs. calculate_complexity s d context = Inr (score, s')
           \<and> 0 \<le> score \<and> score \<le> 1
           \<and> extract_features d context = Inr fs
           \<and> (\<forall>k\<in>set context_features.
                 map_of fs k = (if truthy context
                                then Some (get_or (map_of items k) (PyFloat (1/2)))
                                else None))"
proof -
  have "\<exists>fs. extract_features d context = Inr fs"
  proof (cases "truthy context")
    case False
    then show ?thesis by (simp add: extract_features_no_context)
  next
    case True
    then have "context = CtxDict items" and "items \<noteq> []" using assms(2) by auto
    then show ?thesis using extract_features_dict by blast
  qed
  then obtain fs where fs: "extract_features d context = Inr fs" ..
  have keys: "\<forall>k\<in>set context_features.
      map_of fs k = (if truthy context
                     then Some (get_or (map_of items k) (PyFloat (1/2))) else None)"
  proof (cases "truthy context")
    case False
    then have "fs = description_features d"
      using fs by (simp add: extract_features_no_context)
    then show ?thesis
      using False by (simp add: description_features_no_context_key)
  next
    case True
    then have ctx: "context = CtxDict items" and ne: "items \<noteq> []" using assms(2) by auto
    show ?thesis
      using True extract_features_dict_key [OF ne _ fs [unfolded ctx]] by simp
  qed
  obtain score where score: "calculate_weighted_score s fs = Inr score"
    using calculate_weighted_score_safe [of fs s] extract_features_safe [OF assms fs] by blast
  have "0 \<le> sigmoid_normalize score" and "sigmoid_normalize score \<le> 1"
    using sigmoid_bounds [of score] by simp_all
  then show ?thesis
    using calculate_complexity_result [OF fs score] fs keys by blast
qed

theorem calculate_complexity_in_unit_interval_witness:
  "\<exists>score s' fs. calculate_complexity default_scorer ''open chrome''
          (CtxDict [(''user_skill_level'', PyInt 3), (''similar_tasks_complexity'', PyOther)])
        = Inr (score, s')
       \<and> 0 \<le> score \<and> score \<le> 1
       \<and> extract_features ''open chrome''
            (CtxDict [(''user_skill_level'', PyInt 3), (''similar_tasks_complexity'', PyOther)])
          = Inr fs
       \<and> map_of fs ''historical_success_rate'' = Some (PyFloat (1/2))
       \<and> map_of fs ''user_skill_level'' = Some (PyInt 3)"
proof -
  let ?items = "[(''user_skill_level'', PyInt 3), (''similar_tasks_complexity'', PyOther)]"
  have len: "length ''open chrome'' < 2 ^ 63" by simp
  have "\<bar>real_of_int 3\<bar> < float_limit" using float_limit_large by simp
  then have safe: "CtxDict ?items = CtxNone \<or> (CtxDict ?items = CtxDict ?items \<and> context_safe ?items)"
    by (simp add: context_safe_def)
  obtain score s' fs where r:
    "calculate_complexity default_scorer ''open chrome'' (CtxDict ?items) = Inr (score, s')"
    "0 \<le> score" "score \<le> 1"
    "extract_features ''open chrome'' (CtxDict ?items) = Inr fs"
    "\<forall>k\<in>set context_features.
        map_of fs k = (if truthy (CtxDict ?items)
                       then Some (get_or (map_of ?items k) (PyFloat (1/2))) else None)"
    using calculate_complexity_in_unit_interval [OF len safe, of default_scorer]
    by blast
  have "map_of fs ''historical_success_rate'' = Some (PyFloat (1/2))"
    and "map_of fs ''user_skill_level'' = Some (PyInt 3)"
    using r(5) by (simp_all add: context_features_def get_or_def)
  with r(1-4) show ?thesis by blast
qed

lemma lower_empty: "lower '''' = ''''"
  by (simp add: lower_def)

lemma split_count_empty: "split_count False '''' = 0"
  by simp

lemma count_apps_empty: "count_apps '''' = 0"
  by code_simp

lemma has_inter_app_dependency_empty: "has_inter_app_dependency '''' = False"
  by code_simp

lemma requires_text_processing_empty: "requires_text_processing '''' = False"
  by code_simp

lemma requires_navigation_empty: "requires_navigation '''' = False"
  by code_simp

lemma requires_data_manipulation_empty: "requires_data_manipulation '''' = False"
  by code_simp

lemma estimate_step_count_empty: "estimate_step_count '''' = 1"
  by code_simp

lemma has_conditional_logic_empty: "has_conditional_logic '''' = False"
  by code_simp


lemma description_features_empty:
  "description_features '''' =
     [(''word_count'', PyInt 0), (''app_count'', PyInt 0),
      (''has_inter_app_dependency'', PyBool False),
      (''requires_text_processing'', PyBool False),
      (''requires_navigation'', PyBool False),
      (''requires_data_manipulation'', PyBool False),
      (''step_count_estimate'', PyInt 1),
      (''has_conditional_logic'', PyBool False)]"
  unfolding description_features_def Let_def lower_empty split_count_empty count_apps_empty
    has_inter_app_dependency_empty requires_text_processing_empty requires_navigation_empty
    requires_data_manipulation_empty estimate_step_count_empty has_conditional_logic_empty
  by simp

lemma merged_weights_default: "merged_weights default_scorer = default_weights"
  by (simp add: merged_weights_def default_scorer_def ComplexityScorer_init_def
      create_default_config_def)

lemma int_truediv_small:
  "int_truediv 0 d = Inr 0" "1 \<le> d \<Longrightarrow> int_truediv 1 d = Inr (1 / real_of_int d)"
proof -
  have z: "\<bar>real_of_int 0\<bar> < float_limit" and o: "\<bar>real_of_int 1\<bar> < float_limit"
    using float_limit_large by simp_all
  show "int_truediv 0 d = Inr 0"
    using z by (simp add: int_truediv_def)
  show "1 \<le> d \<Longrightarrow> int_truediv 1 d = Inr (1 / real_of_int d)"
    using int_truediv_safe [OF o, of d] by simp
qed

lemma score_empty_no_context:
  "calculate_weighted_score default_scorer (description_features '''') = Inr (3/580)"
  by (simp add: calculate_weighted_score_def merged_weights_default default_weights_def
      description_features_empty int_truediv_small capped_def)

lemma extract_features_neutral:
  "extract_features '''' neutral_context =
     Inr (description_features '''' @
          [(''historical_success_rate'', PyFloat (1/2)),
           (''similar_tasks_complexity'', PyFloat (1/2)),
           (''user_skill_level'', PyFloat (1/2))])"
  by (simp add: extract_features_def neutral_context_def context_features_def get_or_def
      description_features_empty)

lemma score_empty_neutral:
  "calculate_weighted_score default_scorer
     (description_features '''' @
          [(''historical_success_rate'', PyFloat (1/2)),
           (''similar_tasks_complexity'', PyFloat (1/2)),
           (''user_skill_level'', PyFloat (1/2))]) = Inr (43/660)"
  by (simp add: calculate_weighted_score_def merged_weights_default default_weights_def
      description_features_empty int_truediv_small capped_def)

text \<open>
  Claim C5, as stated, fails for an absent context: it does not degrade to 0.5 for each
  context feature. For the empty description the extracted features have no entry for
  \<^verbatim>\<open>historical_success_rate\<close>, and the score differs from the score of the same description
  with a context that sets each context feature to 0.5.
\<close>

theorem absent_context_is_not_neutral:
  "map_of (description_features '''') ''historical_success_rate'' = None
   \<and> extract_features '''' CtxNone = Inr (description_features '''')
   \<and> (\<exists>x y s1 s2. calculate_complexity default_scorer '''' CtxNone = Inr (x, s1)
         \<and> calculate_complexity default_scorer '''' neutral_context = Inr (y, s2)
         \<and> x \<noteq> y)"
proof -
  have a: "map_of (description_features '''') ''historical_success_rate'' = None"
    by (simp add: description_features_no_context_key context_features_def)
  have b: "extract_features '''' CtxNone = Inr (description_features '''')"
    by (simp add: extract_features_no_context)
  have "sigmoid_normalize (3/580) \<noteq> sigmoid_normalize (43/660)"
    by (simp add: sigmoid_inj)
  then have c: "\<exists>x y s1 s2. calculate_complexity default_scorer '''' CtxNone = Inr (x, s1)
         \<and> calculate_complexity default_scorer '''' neutral_context = Inr (y, s2)
         \<and> x \<noteq> y"
    unfolding calculate_complexity_result [OF b score_empty_no_context]
      calculate_complexity_result [OF extract_features_neutral score_empty_neutral]
    by blast
  show ?thesis
    using a b c by (intro conjI)
qed

text \<open>
  A dictionary with an integer beyond the range of a float is outside the theorem above:
  for \<^verbatim>\<open>historical_success_rate\<close> the conversion in \<^verbatim>\<open>1.0 - value\<close> raises
  \<^verbatim>\<open>OverflowError\<close>.
\<close>

lemma overflowing_context_raises:
  assumes "float_limit \<le> \<bar>real_of_int n\<bar>"
  shows "calculate_complexity default_scorer ''''
     (CtxDict [(''historical_success_rate'', PyInt n)]) = Inl OverflowError"
proof -
  have big: "int_to_float n = Inl OverflowError"
    using assms by (simp add: int_to_float_def)
  have fs: "extract_features '''' (CtxDict [(''historical_success_rate'', PyInt n)])
      = Inr (description_features '''' @
          [(''historical_success_rate'', PyInt n),
           (''similar_tasks_complexity'', PyFloat (1/2)),
           (''user_skill_level'', PyFloat (1/2))])"
    by (simp add: extract_features_def get_or_def description_features_empty)
  have "calculate_weighted_score default_scorer
     (description_features '''' @
          [(''historical_success_rate'', PyInt n),
           (''similar_tasks_complexity'', PyFloat (1/2)),
           (''user_skill_level'', PyFloat (1/2))]) = Inl OverflowError"
    by (simp add: calculate_weighted_score_def merged_weights_default default_weights_def
        description_features_empty int_truediv_small capped_def big)
  then show ?thesis
    by (simp add: calculate_complexity_def fs)
qed

lemma overflowing_context_raises_at_2_1024:
  "calculate_complexity default_scorer ''''
     (CtxDict [(''historical_success_rate'', PyInt (2 ^ 1024))]) = Inl OverflowError"
proof (rule overflowing_context_raises)
  have "(0::real) \<le> 2 ^ 970" by simp
  then show "float_limit \<le> \<bar>real_of_int (2 ^ 1024)\<bar>"
    unfolding float_limit_def by (simp del: power_numeral)
qed

text \<open>
  Claim C6. After every call of \<^verbatim>\<open>update_model_performance\<close> the scoring history has at
  most 1000 entries, whatever the scorer's state before the call, in particular after any
  run of \<^verbatim>\<open>calculate_complexity\<close> calls.
\<close>

text \<open>
  Claim C6. After every call of \<^verbatim>\<open>update_model_performance\<close> the scoring history has at
  most 1000 entries, whatever the scorer's state before the call, in particular after any
  run of \<^verbatim>\<open>calculate_complexity\<close> calls.
\<close>

theorem scoring_history_capped:
  "length (history (update_model_performance s d mt ok)) \<le> 1000
   \<and> length (history (update_model_performance (score_all s calls) d mt ok)) \<le> 1000"
  by (simp add: update_model_performance_def)

subsection \<open>The router\<close>

lemma expenses_record_expense:
  "expenses (record_expense ck c mt descr t) = expenses t @
     [\<lparr>timestamp = now_stamp ck, model_type = mt, cost = c,
       task_description = take 100 descr, success = True\<rparr>]"
  by (simp add: record_expense_def Let_def)

text \<open>
  Claim C4. For every subtask description, tier and success value,
  \<^verbatim>\<open>update_routing_performance\<close> appends one expense to the tracker's ledger, of the tier's
  configured \<^verbatim>\<open>cost_per_1k_tokens\<close> (0 for a tier without one), exactly when the tier is not
  \<^verbatim>\<open>rule\<close>, and appends nothing when it is; the ledger total grows by that cost. The
  success value plays no part, so the cost accrues on failure too.
\<close>

theorem router_records_cost_unless_rule:
  "expenses (budget_tracker (update_routing_performance r ck subtask tier ok)) =
     (if tier = ''rule'' then expenses (budget_tracker r)
      else expenses (budget_tracker r) @
        [\<lparr>timestamp = now_stamp ck, model_type = ''unknown'',
          cost = get_or (cost_per_1k_tokens (get_model_info (ms_config (model_selector r)) tier)) 0,
          task_description = '''', success = True\<rparr>])
   \<and> get_total_expenses (budget_tracker (update_routing_performance r ck subtask tier ok)) =
       get_total_expenses (budget_tracker r)
       + (if tier = ''rule'' then 0
          else get_or (cost_per_1k_tokens (get_model_info (ms_config (model_selector r)) tier)) 0)"
  by (simp add: update_routing_performance_def Let_def expenses_record_expense
      get_model_cost_def get_total_expenses_def)

lemma selector_update_call [simp]: "model_selector (update_call r u) = model_selector r"
  by (simp add: update_call_def update_routing_performance_def Let_def)

lemma selector_update_all [simp]: "model_selector (update_all r us) = model_selector r"
  unfolding update_all_def by (induction us arbitrary: r) simp_all

lemma expenses_update_call:
  "expenses (budget_tracker (update_call r u)) =
     expenses (budget_tracker r) @ (if ru_tier u = ''rule'' then [] else [router_expense r u])"
  by (simp add: update_call_def update_routing_performance_def Let_def expenses_record_expense
      router_expense_def)

lemma expenses_update_all:
  "expenses (budget_tracker (update_all r us)) =
     expenses (budget_tracker r) @ map (router_expense r) (filter (\<lambda>u. ru_tier u \<noteq> ''rule'') us)"
  unfolding update_all_def
proof (induction us arbitrary: r)
  case Nil
  then show ?case by simp
next
  case (Cons u us)
  have "router_expense (update_call r u) = router_expense r"
    by (rule ext) (simp add: router_expense_def)
  then show ?case
    by (simp add: Cons.IH expenses_update_call)
qed

lemma breakdown_loop_key:
  "breakdown_loop es b k =
     (if list_ex (\<lambda>e. model_type e = k) es
      then Some (get_or (b k) 0 + sum_list (map cost (filter (\<lambda>e. model_type e = k) es)))
      else b k)"
proof (induction es arbitrary: b)
  case Nil
  then show ?case by simp
next
  case (Cons e es)
  show ?case
  proof (cases "list_ex (\<lambda>x. model_type x = k) es")
    case True
    then show ?thesis
      by (cases "b (model_type e)") (auto simp: Cons.IH Let_def get_or_def dom_def)
  next
    case False
    then have "filter (\<lambda>x. model_type x = k) es = []"
      by (simp add: list_ex_iff filter_empty_conv)
    with False show ?thesis
      by (cases "b (model_type e)") (auto simp: Cons.IH Let_def get_or_def dom_def)
  qed
qed

lemma router_expense_unknown:
  "model_type (router_expense r u) = ''unknown''" "task_description (router_expense r u) = ''''"
  by (simp_all add: router_expense_def)

text \<open>
  Claim C10. Every expense that a run of \<^verbatim>\<open>update_routing_performance\<close> calls adds to the
  ledger has the tier field \<^verbatim>\<open>unknown\<close> and an empty task description. So for a router
  that has done nothing else since its construction, \<^verbatim>\<open>get_model_expense_breakdown\<close> has
  the single key \<^verbatim>\<open>unknown\<close>, holding the whole ledger total, as soon as one update was for
  a tier other than \<^verbatim>\<open>rule\<close>, and is empty before: no real tier name is a key.
\<close>

theorem router_spend_is_unattributed:
  "(\<exists>new. expenses (budget_tracker (update_all r us)) = expenses (budget_tracker r) @ new
       \<and> list_all (\<lambda>e. model_type e = ''unknown'' \<and> task_description e = '''') new)
   \<and> get_model_expense_breakdown (budget_tracker (update_all (RouterAgent_init cfg now_d now_w now_m) us))
     = (if list_ex (\<lambda>u. ru_tier u \<noteq> ''rule'') us
        then [''unknown'' \<mapsto> get_total_expenses
                (budget_tracker (update_all (RouterAgent_init cfg now_d now_w now_m) us))]
        else Map.empty)"
proof -
  let ?new = "\<lambda>r. map (router_expense r) (filter (\<lambda>u. ru_tier u \<noteq> ''rule'') us)"
  have unk: "list_all (\<lambda>e. model_type e = ''unknown'' \<and> task_description e = '''') (?new r)" for r
    by (simp add: list_all_iff router_expense_unknown)
  have first: "\<exists>new. expenses (budget_tracker (update_all r us)) = expenses (budget_tracker r) @ new
       \<and> list_all (\<lambda>e. model_type e = ''unknown'' \<and> task_description e = '''') new"
    using expenses_update_all [of r us] unk [of r] by blast
  let ?r0 = "RouterAgent_init cfg now_d now_w now_m"
  have e0: "expenses (budget_tracker (update_all ?r0 us)) = ?new ?r0"
    by (simp add: expenses_update_all RouterAgent_init_def BudgetTracker_init_def)
  have filt: "filter (\<lambda>e. model_type e = k) (?new ?r0) = (if k = ''unknown'' then ?new ?r0 else [])" for k
    by (auto simp: filter_empty_conv router_expense_unknown filter_id_conv)
  have ex: "list_ex (\<lambda>e. model_type e = k) (?new ?r0)
      \<longleftrightarrow> k = ''unknown'' \<and> list_ex (\<lambda>u. ru_tier u \<noteq> ''rule'') us" for k
    by (auto simp: list_ex_iff router_expense_unknown)
  have second: "get_model_expense_breakdown (budget_tracker (update_all ?r0 us))
     = (if list_ex (\<lambda>u. ru_tier u \<noteq> ''rule'') us
        then [''unknown'' \<mapsto> get_total_expenses (budget_tracker (update_all ?r0 us))]
        else Map.empty)"
    unfolding get_model_expense_breakdown_def get_total_expenses_def e0
    by (rule ext) (simp add: breakdown_loop_key ex filt get_or_def)
  show ?thesis
    using first second by (rule conjI)
qed

end
